theory Spec2Isabelle
  imports Main "HOL-Library.Sublist"
begin

section \<open>appstreamlint: the data model\<close>

text \<open>
  The four structs of \<^verbatim>\<open>appstreamlint.go\<close>. A Go \<^verbatim>\<open>string\<close> is a sequence of bytes
  and \<^verbatim>\<open>len\<close> counts bytes; \<^typ>\<open>string\<close> is a list of 8-bit characters and
  \<^const>\<open>length\<close> counts them, so the two agree. A tag that is absent from the document
  leaves the empty string (or the empty slice) in its field.
\<close>

record Launchable =
  LaunchableType :: string
  Contents :: string

record Image =
  ImageType :: string
  Width :: int
  Height :: int
  Source :: string

record Screenshot =
  Caption :: string
  Image :: Image
  Environment :: string

record Component =
  Type :: string
  ID :: string
  Name :: string
  Summary :: string
  MetadataLicense :: string
  ProjectLicense :: string
  Description :: string
  Launchable :: Launchable
  Screenshots :: "Screenshot list"

section \<open>Output and termination\<close>

text \<open>
  A run prints lines on standard output and then either goes on, or stops: with
  \<^verbatim>\<open>os.Exit(code)\<close>, or with a runtime panic (a slice expression out of range).
  Each \<^verbatim>\<open>fmt.Println\<close> is one element of the output list: its operands separated
  by one space, without the final newline.
\<close>

datatype stop = OsExit int | RuntimePanic

type_synonym run = "string list \<times> (stop + unit)"

fun runSteps :: "run list \<Rightarrow> run" where
  "runSteps [] = ([], Inr ())"
| "runSteps ((out, Inl e) # rest) = (out, Inl e)"
| "runSteps ((out, Inr u) # rest) = (case runSteps rest of (out', r) \<Rightarrow> (out @ out', r))"

text \<open>Go's slice expressions on a string: \<^verbatim>\<open>s[:j]\<close> and \<^verbatim>\<open>s[i:]\<close> panic when the
  index is negative or greater than \<^verbatim>\<open>len(s)\<close>.\<close>

definition sliceTo :: "string \<Rightarrow> int \<Rightarrow> string option" where
  "sliceTo s j = (if 0 \<le> j \<and> j \<le> int (length s) then Some (take (nat j) s) else None)"

definition sliceFrom :: "string \<Rightarrow> int \<Rightarrow> string option" where
  "sliceFrom s i = (if 0 \<le> i \<and> i \<le> int (length s) then Some (drop (nat i) s) else None)"

text \<open>\<^verbatim>\<open>fmt.Println\<close> of a \<^verbatim>\<open>[]string\<close>: the elements separated by spaces, in brackets.\<close>

fun joinSpace :: "string list \<Rightarrow> string" where
  "joinSpace [] = []"
| "joinSpace [x] = x"
| "joinSpace (x # y # ys) = x @ '' '' @ joinSpace (y # ys)"

definition printSlice :: "string list \<Rightarrow> string" where
  "printSlice xs = ''['' @ joinSpace xs @ '']''"

section \<open>The checks of \<^verbatim>\<open>main\<close>, in source order\<close>

text \<open>Lines 70--77: the filename must be the ID with one of the two extensions.\<close>

definition checkFilename :: "string \<Rightarrow> Component \<Rightarrow> run" where
  "checkFilename filePath component =
     (if filePath \<noteq> ID component @ ''.appdata.xml'' \<and> filePath \<noteq> ID component @ ''.metainfo.xml''
      then ([''Error: Filename must be the same as the ID with .appdata.xml extension'',
             ''Correct filename: '' @ ID component @ ''.metainfo.xml'',
             ''Actual filename: '' @ filePath],
            Inl (OsExit 1))
      else ([], Inr ()))"

text \<open>
  Lines 80--97: the map \<^verbatim>\<open>requiredFields\<close> and the \<^verbatim>\<open>range\<close> loop over it. Go does not
  fix the order in which \<^verbatim>\<open>range\<close> visits the entries of a map (the runtime picks a
  different one from run to run); it visits every key once. The order of one run is the
  parameter \<open>order\<close>, a list of the keys, and \<open>rangeOrder\<close> says that it is a
  possible one.
\<close>

definition requiredFields :: "Component \<Rightarrow> (string \<times> string) list" where
  "requiredFields component =
     [(''Type'', Type component),
      (''ID'', ID component),
      (''Name'', Name component),
      (''Summary'', Summary component),
      (''MetadataLicense'', MetadataLicense component),
      (''ProjectLicense'', ProjectLicense component),
      (''Description'', Description component),
      (''LaunchableType'', LaunchableType (Launchable component)),
      (''Launchable'', Contents (Launchable component))]"

definition rangeOrder :: "(string \<times> string) list \<Rightarrow> string list \<Rightarrow> bool" where
  "rangeOrder m order = (distinct order \<and> set order = set (map fst m))"

fun requiredLoop :: "(string \<times> string) list \<Rightarrow> string list \<Rightarrow> run" where
  "requiredLoop m [] = ([], Inr ())"
| "requiredLoop m (field # rest) =
     (case map_of m field of
        None \<Rightarrow> requiredLoop m rest
      | Some v \<Rightarrow>
          if v = '''' then ([''Error: '' @ field @ '' must not be empty''], Inl (OsExit 1))
          else requiredLoop m rest)"

definition checkRequiredFields :: "string list \<Rightarrow> Component \<Rightarrow> run" where
  "checkRequiredFields order component = requiredLoop (requiredFields component) order"

text \<open>Lines 103--106: the component type.\<close>

definition checkType :: "Component \<Rightarrow> run" where
  "checkType component =
     (if Type component \<noteq> ''desktop-application'' \<and> Type component \<noteq> ''desktop''
      then ([''Error: Type must be 'desktop-application'' @ [CHR 0x27]], Inl (OsExit 1))
      else ([], Inr ()))"

text \<open>Lines 117--145: the metadata license; a miss prints a warning and goes on.\<close>

definition allowedLicenses :: "string list" where
  "allowedLicenses =
     [''FSFAP'', ''MIT'', ''0BSD'', ''CC0-1.0'', ''CC-BY-3.0'', ''CC-BY-4.0'',
      ''CC-BY-SA-3.0'', ''CC-BY-SA-4.0'', ''GFDL-1.1'', ''GFDL-1.2'', ''GFDL-1.3'',
      ''BSL-1.0'', ''FTL'', ''FSFUL'']"

fun licenseLoop :: "string \<Rightarrow> string list \<Rightarrow> bool" where
  "licenseLoop l [] = False"
| "licenseLoop l (license # rest) = (if l = license then True else licenseLoop l rest)"

definition checkMetadataLicense :: "Component \<Rightarrow> run" where
  "checkMetadataLicense component =
     (if \<not> licenseLoop (MetadataLicense component) allowedLicenses
      then ([''Warning: Metadata license is not allowed'',
             ''Allowed licenses: '' @ printSlice allowedLicenses,
             ''Actual license: '' @ MetadataLicense component],
            Inr ())
      else ([], Inr ()))"

text \<open>Lines 149--159: the minimum lengths of name and summary.\<close>

definition checkName :: "Component \<Rightarrow> run" where
  "checkName component =
     (if length (Name component) < 2
      then ([''Error: Name must be at least 2 characters long''], Inl (OsExit 1))
      else ([], Inr ()))"

definition checkSummary :: "Component \<Rightarrow> run" where
  "checkSummary component =
     (if length (Summary component) < 10
      then ([''Error: Summary must be at least 10 characters long''], Inl (OsExit 1))
      else ([], Inr ()))"

text \<open>Lines 166--170: the launchable type.\<close>

definition checkLaunchable :: "Component \<Rightarrow> run" where
  "checkLaunchable component =
     (if LaunchableType (Launchable component) \<noteq> ''desktop-id''
      then ([''Error: Launchable type must be 'desktop-id'' @ [CHR 0x27],
             ''Actual launchable type: '' @ LaunchableType (Launchable component)],
            Inl (OsExit 1))
      else ([], Inr ()))"

text \<open>
  Line 191, the condition
  \<^verbatim>\<open>len(s) < 7 || (s[:7] != "http://" && s[:8] != "https://")\<close>
  with the short-circuit evaluation of \<^verbatim>\<open>||\<close> and \<^verbatim>\<open>&&\<close>: \<^verbatim>\<open>s[:8]\<close> is only
  evaluated when the length is at least 7 and the first seven bytes are not
  \<^verbatim>\<open>http://\<close>. \<open>None\<close> is the panic of a slice expression.
\<close>

definition badPrefix :: "string \<Rightarrow> bool option" where
  "badPrefix s =
     (if length s < 7 then Some True
      else (case sliceTo s 7 of
              None \<Rightarrow> None
            | Some p7 \<Rightarrow>
                if p7 \<noteq> ''http://''
                then (case sliceTo s 8 of
                        None \<Rightarrow> None
                      | Some p8 \<Rightarrow> Some (p8 \<noteq> ''https://''))
                else Some False))"

definition checkPrefix :: "string \<Rightarrow> run" where
  "checkPrefix s =
     (case badPrefix s of
        None \<Rightarrow> ([], Inl RuntimePanic)
      | Some bad \<Rightarrow>
          if bad
          then ([''Error: Image source must start with http:// or https://''], Inl (OsExit 1))
          else ([], Inr ()))"

text \<open>Lines 196--209: the loop over the valid extensions, and the report of a miss. The
  third \<^verbatim>\<open>Println\<close> evaluates \<^verbatim>\<open>s[len(s)-4:]\<close> after the first two lines are out.\<close>

definition validExtensions :: "string list" where
  "validExtensions = [''.png'', ''.jpg'', ''.jpeg'']"

fun extensionLoop :: "string \<Rightarrow> string list \<Rightarrow> bool option" where
  "extensionLoop s [] = Some False"
| "extensionLoop s (ext # exts) =
     (if int (length s) > int (length ext)
      then (case sliceFrom s (int (length s) - int (length ext)) of
              None \<Rightarrow> None
            | Some t \<Rightarrow> if t = ext then Some True else extensionLoop s exts)
      else extensionLoop s exts)"

definition checkExtension :: "string \<Rightarrow> run" where
  "checkExtension s =
     (case extensionLoop s validExtensions of
        None \<Rightarrow> ([], Inl RuntimePanic)
      | Some valid \<Rightarrow>
          if \<not> valid
          then (case sliceFrom s (int (length s) - 4) of
                  None \<Rightarrow>
                    ([''Error: Image source must end with a valid image extension'',
                      ''Valid extensions: '' @ printSlice validExtensions],
                     Inl RuntimePanic)
                | Some t \<Rightarrow>
                    ([''Error: Image source must end with a valid image extension'',
                      ''Valid extensions: '' @ printSlice validExtensions,
                      ''Actual extension: '' @ t],
                     Inl (OsExit 1)))
          else ([], Inr ()))"

text \<open>Lines 183--210: the body of the loop over the screenshots.\<close>

definition checkScreenshot :: "Screenshot \<Rightarrow> run" where
  "checkScreenshot screenshot =
     (if ImageType (Image screenshot) \<noteq> ''source'' \<and> ImageType (Image screenshot) \<noteq> ''video''
         \<and> ImageType (Image screenshot) \<noteq> ''''
      then ([''Error: Image type must be 'source' or 'video'' @ [CHR 0x27]], Inl (OsExit 1))
      else if ImageType (Image screenshot) = ''source''
      then runSteps [checkPrefix (Source (Image screenshot)),
                     checkExtension (Source (Image screenshot))]
      else ([], Inr ()))"

text \<open>Lines 174--213: the warning for no screenshots, the inner test of the same
  length, and the loop.\<close>

definition checkScreenshots :: "Component \<Rightarrow> run" where
  "checkScreenshots component =
     (if length (Screenshots component) = 0
      then ([''Warning: No screenshots tag found''], Inr ())
      else if length (Screenshots component) = 0
      then ([''Error: No screenshot tag found inside screenshots tag''], Inl (OsExit 1))
      else runSteps (map checkScreenshot (Screenshots component)))"

text \<open>
  Lines 66--215 of \<^verbatim>\<open>main\<close>. The lines before them read the argument, the file and
  decode the XML; they hand over the path as it was given and the decoded component.
  \<open>Inr ()\<close> at the end is the return of \<^verbatim>\<open>main\<close>, exit code 0.
\<close>

definition main :: "string list \<Rightarrow> string \<Rightarrow> Component \<Rightarrow> run" where
  "main order filePath component =
     runSteps
       [checkFilename filePath component,
        checkRequiredFields order component,
        checkType component,
        checkMetadataLicense component,
        checkName component,
        checkSummary component,
        checkLaunchable component,
        checkScreenshots component,
        ([''Validation complete.''], Inr ())]"

section \<open>Characters and bytes\<close>

text \<open>
  The comments and the messages of lines 148--157 speak of characters; \<^verbatim>\<open>len\<close> counts
  bytes. The decoder hands over valid UTF-8, where a character is one byte that is not
  of the form \<^verbatim>\<open>10xxxxxx\<close>, followed by its continuation bytes of that form. So the
  number of characters of a string is the number of its bytes below 128 or from 192 on
  (Go's \<^verbatim>\<open>utf8.RuneCountInString\<close> on valid UTF-8). The code never computes it; it is the
  measure that the thresholds are stated in.
\<close>

definition characters :: "string \<Rightarrow> nat" where
  "characters s = length (filter (\<lambda>c. (of_char c :: nat) < 128 \<or> 192 \<le> (of_char c :: nat)) s)"

section \<open>Sample inputs\<close>

text \<open>A minimal valid document, the order in which the map literal lists its keys (one of
  the orders a \<^verbatim>\<open>range\<close> may take), and a screenshot with an image of type
  \<^verbatim>\<open>source\<close>.\<close>

definition minimalDocument :: Component where
  "minimalDocument =
     \<lparr>Type = ''desktop-application'', ID = ''org.example.app'', Name = ''Hello'',
      Summary = ''Greets you each day.'', MetadataLicense = ''MIT'',
      ProjectLicense = ''GPL-3.0-or-later'', Description = ''Says hello.'',
      Launchable = \<lparr>LaunchableType = ''desktop-id'', Contents = ''org.example.app.desktop''\<rparr>,
      Screenshots = []\<rparr>"

definition declaredOrder :: "string list" where
  "declaredOrder = [''Type'', ''ID'', ''Name'', ''Summary'', ''MetadataLicense'',
     ''ProjectLicense'', ''Description'', ''LaunchableType'', ''Launchable'']"

definition sourceScreenshot :: "string \<Rightarrow> Screenshot" where
  "sourceScreenshot src =
     \<lparr>Caption = '''', Image = \<lparr>ImageType = ''source'', Width = 0, Height = 0, Source = src\<rparr>,
      Environment = ''''\<rparr>"

section \<open>Properties of the steps\<close>

subsection \<open>Running a list of steps\<close>

lemma runSteps_Cons:
  "runSteps (step # rest) =
     (case snd step of
        Inl e \<Rightarrow> (fst step, Inl e)
      | Inr u \<Rightarrow> (fst step @ fst (runSteps rest), snd (runSteps rest)))"
  by (cases step; cases "snd step") (auto split: prod.splits)

lemma runSteps_pass [simp]: "runSteps (([], Inr ()) # rest) = runSteps rest"
  by (simp split: prod.splits)

lemma runSteps_all_pass:
  "\<forall>x\<in>set steps. x = ([], Inr ()) \<Longrightarrow> runSteps steps = ([], Inr ())"
  by (induction steps) simp_all

lemma notin_runSteps:
  "\<forall>x\<in>set steps. line \<notin> set (fst x) \<Longrightarrow> line \<notin> set (fst (runSteps steps))"
  by (induction steps) (simp_all add: runSteps_Cons split: sum.splits)

subsection \<open>The loop over the required fields\<close>

lemma requiredLoop_pass:
  "(\<And>k v. (k, v) \<in> set m \<Longrightarrow> v \<noteq> []) \<Longrightarrow> requiredLoop m order = ([], Inr ())"
  by (induction order) (auto split: option.splits dest: map_of_SomeD)

lemma requiredLoop_cases:
  "requiredLoop m order = ([], Inr ()) \<or>
   (\<exists>field \<in> set order. map_of m field = Some [] \<and>
      requiredLoop m order = ([''Error: '' @ field @ '' must not be empty''], Inl (OsExit 1)))"
  by (induction order) (auto split: option.splits)

lemma requiredLoop_fail:
  "map_of m field = Some [] \<Longrightarrow> field \<in> set order \<Longrightarrow> requiredLoop m order \<noteq> ([], Inr ())"
  by (induction order) (auto split: option.splits)

subsection \<open>The filename check in \<^verbatim>\<open>main\<close>\<close>

lemma main_step1_fail:
  "filePath \<noteq> ID component @ ''.appdata.xml'' \<Longrightarrow> filePath \<noteq> ID component @ ''.metainfo.xml'' \<Longrightarrow>
   main order filePath component = checkFilename filePath component"
  by (simp add: main_def checkFilename_def)

lemma main_step1_pass:
  "filePath = ID component @ ''.appdata.xml'' \<or> filePath = ID component @ ''.metainfo.xml'' \<Longrightarrow>
   main order filePath component =
     runSteps
       [checkRequiredFields order component,
        checkType component,
        checkMetadataLicense component,
        checkName component,
        checkSummary component,
        checkLaunchable component,
        checkScreenshots component,
        ([''Validation complete.''], Inr ())]"
  by (auto simp add: main_def checkFilename_def)

subsection \<open>The lines a step can print\<close>

lemma in_runSteps:
  "line \<in> set (fst (runSteps steps)) \<Longrightarrow> \<exists>x\<in>set steps. line \<in> set (fst x)"
  by (induction steps) (auto simp add: runSteps_Cons split: sum.splits)

lemma requiredLoop_lines:
  "line \<in> set (fst (requiredLoop m order)) \<Longrightarrow> \<exists>field. line = ''Error: '' @ field @ '' must not be empty''"
  using requiredLoop_cases [of m order] by auto

lemma checkPrefix_lines:
  "line \<in> set (fst (checkPrefix s)) \<Longrightarrow>
   line = ''Error: Image source must start with http:// or https://''"
  by (simp add: checkPrefix_def split: option.splits if_splits)

lemma checkExtension_lines:
  "line \<in> set (fst (checkExtension s)) \<Longrightarrow>
   line = ''Error: Image source must end with a valid image extension'' \<or>
   line = ''Valid extensions: '' @ printSlice validExtensions \<or>
   (\<exists>t. line = ''Actual extension: '' @ t)"
  by (simp add: checkExtension_def split: option.splits if_splits; elim disjE; simp)

lemma checkScreenshot_lines:
  assumes "line \<in> set (fst (checkScreenshot screenshot))"
  shows "line = ''Error: Image type must be 'source' or 'video'' @ [CHR 0x27] \<or>
   line = ''Error: Image source must start with http:// or https://'' \<or>
   line = ''Error: Image source must end with a valid image extension'' \<or>
   line = ''Valid extensions: '' @ printSlice validExtensions \<or>
   (\<exists>t. line = ''Actual extension: '' @ t)"
proof (cases "ImageType (Image screenshot) = ''source''")
  case True
  with assms have "line \<in> set (fst (runSteps [checkPrefix (Source (Image screenshot)),
                     checkExtension (Source (Image screenshot))]))"
    by (simp add: checkScreenshot_def)
  then consider (p) "line \<in> set (fst (checkPrefix (Source (Image screenshot))))"
    | (e) "line \<in> set (fst (checkExtension (Source (Image screenshot))))"
    using in_runSteps [of line "[checkPrefix (Source (Image screenshot)),
                     checkExtension (Source (Image screenshot))]"] by auto
  then show ?thesis
  proof cases
    case p
    from checkPrefix_lines [OF p] show ?thesis by simp
  next
    case e
    from checkExtension_lines [OF e] show ?thesis by (elim disjE exE; simp)
  qed
next
  case False
  with assms show ?thesis
    by (simp add: checkScreenshot_def split: if_splits)
qed

lemma checkScreenshots_lines:
  assumes "line \<in> set (fst (checkScreenshots component))"
  shows "line = ''Warning: No screenshots tag found'' \<or>
   line = ''Error: Image type must be 'source' or 'video'' @ [CHR 0x27] \<or>
   line = ''Error: Image source must start with http:// or https://'' \<or>
   line = ''Error: Image source must end with a valid image extension'' \<or>
   line = ''Valid extensions: '' @ printSlice validExtensions \<or>
   (\<exists>t. line = ''Actual extension: '' @ t)"
proof (cases "Screenshots component = []")
  case True
  with assms show ?thesis by (simp add: checkScreenshots_def)
next
  case False
  with assms have "line \<in> set (fst (runSteps (map checkScreenshot (Screenshots component))))"
    by (simp add: checkScreenshots_def)
  then obtain screenshot where "line \<in> set (fst (checkScreenshot screenshot))"
    using in_runSteps [of line "map checkScreenshot (Screenshots component)"] by auto
  from checkScreenshot_lines [OF this] show ?thesis by (elim disjE exE; simp)
qed

lemma requiredLoop_notin:
  assumes "last line \<noteq> CHR ''y''"
  shows "line \<notin> set (fst (requiredLoop m order))"
proof
  assume "line \<in> set (fst (requiredLoop m order))"
  then obtain field where "line = ''Error: '' @ field @ '' must not be empty''"
    using requiredLoop_lines by blast
  then have "last line = CHR ''y''" by simp
  with assms show False by simp
qed

lemma dead_line_notin_checkScreenshots:
  "''Error: No screenshot tag found inside screenshots tag'' \<notin> set (fst (checkScreenshots component))"
proof
  assume "''Error: No screenshot tag found inside screenshots tag'' \<in> set (fst (checkScreenshots component))"
  from checkScreenshots_lines [OF this] show False by (elim disjE exE; simp)
qed

lemma filename_line_notin_checkScreenshots:
  "''Error: Filename must be the same as the ID with .appdata.xml extension''
     \<notin> set (fst (checkScreenshots component))"
proof
  assume "''Error: Filename must be the same as the ID with .appdata.xml extension''
     \<in> set (fst (checkScreenshots component))"
  from checkScreenshots_lines [OF this] show False by (elim disjE exE; simp)
qed

lemma filename_line_notin_rest:
  "''Error: Filename must be the same as the ID with .appdata.xml extension''
     \<notin> set (fst (runSteps
       [checkRequiredFields order component,
        checkType component,
        checkMetadataLicense component,
        checkName component,
        checkSummary component,
        checkLaunchable component,
        checkScreenshots component,
        ([''Validation complete.''], Inr ())]))"
proof (rule notin_runSteps)
  have "''Error: Filename must be the same as the ID with .appdata.xml extension''
     \<notin> set (fst (checkRequiredFields order component))"
    unfolding checkRequiredFields_def by (rule requiredLoop_notin) simp
  moreover have "''Error: Filename must be the same as the ID with .appdata.xml extension''
     \<notin> set (fst (checkType component))"
    by (simp add: checkType_def)
  moreover have "''Error: Filename must be the same as the ID with .appdata.xml extension''
     \<notin> set (fst (checkMetadataLicense component))"
    by (simp add: checkMetadataLicense_def)
  moreover have "''Error: Filename must be the same as the ID with .appdata.xml extension''
     \<notin> set (fst (checkName component))"
    by (simp add: checkName_def)
  moreover have "''Error: Filename must be the same as the ID with .appdata.xml extension''
     \<notin> set (fst (checkSummary component))"
    by (simp add: checkSummary_def)
  moreover have "''Error: Filename must be the same as the ID with .appdata.xml extension''
     \<notin> set (fst (checkLaunchable component))"
    by (simp add: checkLaunchable_def)
  moreover note filename_line_notin_checkScreenshots [of component]
  ultimately show "\<forall>x\<in>set [checkRequiredFields order component,
        checkType component,
        checkMetadataLicense component,
        checkName component,
        checkSummary component,
        checkLaunchable component,
        checkScreenshots component,
        ([''Validation complete.''], Inr ())].
     ''Error: Filename must be the same as the ID with .appdata.xml extension'' \<notin> set (fst x)"
    by simp
qed

lemma dead_line_notin_main:
  "''Error: No screenshot tag found inside screenshots tag''
     \<notin> set (fst (main order filePath component))"
  unfolding main_def
proof (rule notin_runSteps)
  have "''Error: No screenshot tag found inside screenshots tag''
     \<notin> set (fst (checkFilename filePath component))"
    by (simp add: checkFilename_def)
  moreover have "''Error: No screenshot tag found inside screenshots tag''
     \<notin> set (fst (checkRequiredFields order component))"
    unfolding checkRequiredFields_def by (rule requiredLoop_notin) simp
  moreover have "''Error: No screenshot tag found inside screenshots tag''
     \<notin> set (fst (checkType component))"
    by (simp add: checkType_def)
  moreover have "''Error: No screenshot tag found inside screenshots tag''
     \<notin> set (fst (checkMetadataLicense component))"
    by (simp add: checkMetadataLicense_def)
  moreover have "''Error: No screenshot tag found inside screenshots tag''
     \<notin> set (fst (checkName component))"
    by (simp add: checkName_def)
  moreover have "''Error: No screenshot tag found inside screenshots tag''
     \<notin> set (fst (checkSummary component))"
    by (simp add: checkSummary_def)
  moreover have "''Error: No screenshot tag found inside screenshots tag''
     \<notin> set (fst (checkLaunchable component))"
    by (simp add: checkLaunchable_def)
  moreover note dead_line_notin_checkScreenshots [of component]
  ultimately show "\<forall>x\<in>set [checkFilename filePath component,
        checkRequiredFields order component,
        checkType component,
        checkMetadataLicense component,
        checkName component,
        checkSummary component,
        checkLaunchable component,
        checkScreenshots component,
        ([''Validation complete.''], Inr ())].
     ''Error: No screenshot tag found inside screenshots tag'' \<notin> set (fst x)"
    by simp
qed

subsection \<open>How the steps before the screenshots end\<close>

lemma snd_runSteps_stop:
  "\<forall>x\<in>set pre. snd x = Inr () \<or> snd x = Inl (OsExit 1) \<Longrightarrow> snd step = Inl (OsExit 1) \<Longrightarrow>
   snd (runSteps (pre @ step # post)) = Inl (OsExit 1)"
  by (induction pre) (auto simp add: runSteps_Cons split: sum.splits)

lemma snd_checkFilename: "snd (checkFilename filePath component) = Inr () \<or> snd (checkFilename filePath component) = Inl (OsExit 1)"
  by (simp add: checkFilename_def)

lemma snd_checkRequiredFields: "snd (checkRequiredFields order component) = Inr () \<or> snd (checkRequiredFields order component) = Inl (OsExit 1)"
  unfolding checkRequiredFields_def
  using requiredLoop_cases [of "requiredFields component" order] by auto

lemma snd_checkType: "snd (checkType component) = Inr () \<or> snd (checkType component) = Inl (OsExit 1)"
  by (simp add: checkType_def)

lemma snd_checkMetadataLicense: "snd (checkMetadataLicense component) = Inr ()"
  by (simp add: checkMetadataLicense_def)

lemma snd_checkName: "snd (checkName component) = Inr () \<or> snd (checkName component) = Inl (OsExit 1)"
  by (simp add: checkName_def)

lemma short_name_exit:
  assumes "length (Name component) < 2"
  shows "snd (main order filePath component) = Inl (OsExit 1)"
proof -
  have "snd (checkName component) = Inl (OsExit 1)"
    using assms by (simp add: checkName_def)
  then have "snd (runSteps ([checkFilename filePath component,
        checkRequiredFields order component,
        checkType component,
        checkMetadataLicense component] @ checkName component #
        [checkSummary component,
        checkLaunchable component,
        checkScreenshots component,
        ([''Validation complete.''], Inr ())])) = Inl (OsExit 1)"
    using snd_checkFilename [of filePath component] snd_checkRequiredFields [of order component]
      snd_checkType [of component] snd_checkMetadataLicense [of component]
    by (intro snd_runSteps_stop) simp_all
  then show ?thesis by (simp add: main_def)
qed

lemma short_summary_exit:
  assumes "length (Summary component) < 10"
  shows "snd (main order filePath component) = Inl (OsExit 1)"
proof -
  have "snd (checkSummary component) = Inl (OsExit 1)"
    using assms by (simp add: checkSummary_def)
  then have "snd (runSteps ([checkFilename filePath component,
        checkRequiredFields order component,
        checkType component,
        checkMetadataLicense component, checkName component] @ checkSummary component #
        [checkLaunchable component,
        checkScreenshots component,
        ([''Validation complete.''], Inr ())])) = Inl (OsExit 1)"
    using snd_checkFilename [of filePath component] snd_checkRequiredFields [of order component]
      snd_checkType [of component] snd_checkMetadataLicense [of component] snd_checkName [of component]
    by (intro snd_runSteps_stop) simp_all
  then show ?thesis by (simp add: main_def)
qed

subsection \<open>The nine required fields\<close>

lemma distinct_requiredFields: "distinct (map fst (requiredFields component))"
  by (simp add: requiredFields_def)

lemma requiredFields_all_nonempty:
  assumes "Type component \<noteq> []" "ID component \<noteq> []" "Name component \<noteq> []"
    "Summary component \<noteq> []" "MetadataLicense component \<noteq> []" "ProjectLicense component \<noteq> []"
    "Description component \<noteq> []" "LaunchableType (Launchable component) \<noteq> []"
    "Contents (Launchable component) \<noteq> []"
  shows "checkRequiredFields order component = ([], Inr ())"
  unfolding checkRequiredFields_def
proof (rule requiredLoop_pass)
  fix k v
  assume "(k, v) \<in> set (requiredFields component)"
  then have "v = Type component \<or> v = ID component \<or> v = Name component
    \<or> v = Summary component \<or> v = MetadataLicense component \<or> v = ProjectLicense component
    \<or> v = Description component \<or> v = LaunchableType (Launchable component)
    \<or> v = Contents (Launchable component)"
    by (simp add: requiredFields_def; elim disjE conjE; simp)
  with assms show "v \<noteq> []"
    by (elim disjE; simp)
qed

lemma requiredFields_some_empty:
  assumes "Type component = [] \<or> ID component = [] \<or> Name component = []
    \<or> Summary component = [] \<or> MetadataLicense component = [] \<or> ProjectLicense component = []
    \<or> Description component = [] \<or> LaunchableType (Launchable component) = []
    \<or> Contents (Launchable component) = []"
  shows "\<exists>k. (k, []) \<in> set (requiredFields component)"
proof -
  have "(''Type'', Type component) \<in> set (requiredFields component)"
    "(''ID'', ID component) \<in> set (requiredFields component)"
    "(''Name'', Name component) \<in> set (requiredFields component)"
    "(''Summary'', Summary component) \<in> set (requiredFields component)"
    "(''MetadataLicense'', MetadataLicense component) \<in> set (requiredFields component)"
    "(''ProjectLicense'', ProjectLicense component) \<in> set (requiredFields component)"
    "(''Description'', Description component) \<in> set (requiredFields component)"
    "(''LaunchableType'', LaunchableType (Launchable component)) \<in> set (requiredFields component)"
    "(''Launchable'', Contents (Launchable component)) \<in> set (requiredFields component)"
    by (simp_all add: requiredFields_def)
  with assms show ?thesis
    by (elim disjE) (erule subst, erule exI)+
qed

lemma requiredLoop_stops:
  assumes "distinct (map fst m)" and "rangeOrder m order" and "(k, []) \<in> set m"
  shows "\<exists>field. (field, []) \<in> set m \<and>
     requiredLoop m order = ([''Error: '' @ field @ '' must not be empty''], Inl (OsExit 1))"
proof -
  from assms(1,3) have look: "map_of m k = Some []"
    by (rule map_of_is_SomeI)
  from assms(2,3) have "k \<in> set order"
    by (force simp add: rangeOrder_def)
  with look have "requiredLoop m order \<noteq> ([], Inr ())"
    by (rule requiredLoop_fail)
  with requiredLoop_cases [of m order]
  obtain field where "map_of m field = Some []"
    and "requiredLoop m order = ([''Error: '' @ field @ '' must not be empty''], Inl (OsExit 1))"
    by blast
  then show ?thesis
    by (blast dest: map_of_SomeD)
qed

lemma checkRequiredFields_stops:
  assumes "rangeOrder (requiredFields component) order"
    and "Type component = [] \<or> ID component = [] \<or> Name component = []
    \<or> Summary component = [] \<or> MetadataLicense component = [] \<or> ProjectLicense component = []
    \<or> Description component = [] \<or> LaunchableType (Launchable component) = []
    \<or> Contents (Launchable component) = []"
  shows "\<exists>field. (field, []) \<in> set (requiredFields component) \<and>
     checkRequiredFields order component
       = ([''Error: '' @ field @ '' must not be empty''], Inl (OsExit 1))"
proof -
  from requiredFields_some_empty [OF assms(2)]
  obtain k where "(k, []) \<in> set (requiredFields component)" ..
  from requiredLoop_stops [OF distinct_requiredFields assms(1) this]
  show ?thesis by (simp add: checkRequiredFields_def)
qed

lemma main_stops_at_required:
  assumes "checkFilename filePath component = ([], Inr ())"
    and "checkRequiredFields order component = (out, Inl e)"
  shows "main order filePath component = (out, Inl e)"
  using assms by (simp add: main_def)

subsection \<open>Orders of the \<^verbatim>\<open>range\<close>\<close>

lemma rangeOrder_declaredOrder: "rangeOrder (requiredFields component) declaredOrder"
  by (simp add: rangeOrder_def requiredFields_def declaredOrder_def)

lemma rangeOrder_rev: "rangeOrder m order \<Longrightarrow> rangeOrder m (rev order)"
  by (simp add: rangeOrder_def)

lemma requiredLoop_pass_any_order:
  assumes "rangeOrder m order1" and "rangeOrder m order2"
    and "requiredLoop m order1 = ([], Inr ())"
  shows "requiredLoop m order2 = ([], Inr ())"
proof (rule ccontr)
  assume "requiredLoop m order2 \<noteq> ([], Inr ())"
  with requiredLoop_cases [of m order2]
  obtain field where "field \<in> set order2" and "map_of m field = Some []"
    by blast
  moreover from assms(1,2) have "set order2 = set order1"
    by (simp add: rangeOrder_def)
  ultimately have "requiredLoop m order1 \<noteq> ([], Inr ())"
    by (intro requiredLoop_fail) simp_all
  with assms(3) show False by simp
qed

subsection \<open>Unfolding the checks on a concrete input\<close>

lemmas check_defs = main_def checkFilename_def checkRequiredFields_def requiredFields_def
  checkType_def checkMetadataLicense_def allowedLicenses_def checkName_def checkSummary_def
  checkLaunchable_def checkScreenshots_def checkScreenshot_def checkPrefix_def badPrefix_def
  checkExtension_def validExtensions_def sliceTo_def sliceFrom_def printSlice_def
  minimalDocument_def declaredOrder_def

subsection \<open>Prefix and extension of an image source\<close>

lemma take_eq_iff_prefix:
  assumes "n = length p"
  shows "take n s = p \<longleftrightarrow> prefix p s"
proof
  assume "take n s = p"
  then have "prefix (take n s) s \<Longrightarrow> prefix p s" by simp
  then show "prefix p s" by (simp add: take_is_prefix)
next
  assume "prefix p s"
  then obtain zs where "s = p @ zs" by (auto simp add: prefix_def)
  with assms show "take n s = p" by simp
qed

lemma drop_eq_iff_suffix:
  assumes "n = length x"
  shows "drop (length s - n) s = x \<longleftrightarrow> suffix x s"
proof
  assume "drop (length s - n) s = x"
  then have "suffix (drop (length s - n) s) s \<Longrightarrow> suffix x s" by simp
  then show "suffix x s" by (simp add: suffix_drop)
next
  assume "suffix x s"
  then obtain zs where "s = zs @ x" by (auto simp add: suffix_def)
  with assms show "drop (length s - n) s = x" by simp
qed

lemma badPrefix_eq:
  "badPrefix s =
     (if length s = 7 \<and> s \<noteq> ''http://'' then None
      else Some (\<not> (prefix ''http://'' s \<or> prefix ''https://'' s)))"
proof -
  have p7: "take 7 s = ''http://'' \<longleftrightarrow> prefix ''http://'' s"
    by (rule take_eq_iff_prefix) simp
  have p8: "take 8 s = ''https://'' \<longleftrightarrow> prefix ''https://'' s"
    by (rule take_eq_iff_prefix) simp
  have short7: "length s < 7 \<Longrightarrow> \<not> prefix ''http://'' s"
    using prefix_length_le [of "''http://''" s] by auto
  have short8: "length s < 8 \<Longrightarrow> \<not> prefix ''https://'' s"
    using prefix_length_le [of "''https://''" s] by auto
  have excl: "prefix ''http://'' s \<Longrightarrow> \<not> prefix ''https://'' s"
    by (auto simp add: prefix_def)
  consider (lt) "length s < 7" | (eq) "length s = 7" | (gt) "8 \<le> length s"
    by linarith
  then show ?thesis
  proof cases
    case lt
    then show ?thesis
      using short7 short8 by (simp add: badPrefix_def)
  next
    case eq
    then have "take 7 s = s" by simp
    with eq show ?thesis
      using short8 p7 by (simp add: badPrefix_def sliceTo_def)
  next
    case gt
    then show ?thesis
      using p7 p8 excl by (auto simp add: badPrefix_def sliceTo_def)
  qed
qed

lemma extensionLoop_eq:
  "extensionLoop s validExtensions =
     Some (4 < length s \<and> suffix ''.png'' s \<or> 4 < length s \<and> suffix ''.jpg'' s
           \<or> 5 < length s \<and> suffix ''.jpeg'' s)"
proof -
  have png: "drop (length s - 4) s = ''.png'' \<longleftrightarrow> suffix ''.png'' s"
    by (rule drop_eq_iff_suffix) simp
  have jpg: "drop (length s - 4) s = ''.jpg'' \<longleftrightarrow> suffix ''.jpg'' s"
    by (rule drop_eq_iff_suffix) simp
  have jpeg: "drop (length s - 5) s = ''.jpeg'' \<longleftrightarrow> suffix ''.jpeg'' s"
    by (rule drop_eq_iff_suffix) simp
  have n4: "4 < length s \<Longrightarrow> nat (int (length s) - 4) = length s - 4" by simp
  have n5: "5 < length s \<Longrightarrow> nat (int (length s) - 5) = length s - 5" by simp
  show ?thesis
    using png jpg jpeg n4 n5
    by (simp add: validExtensions_def sliceFrom_def)
qed

subsection \<open>The license warning and the screenshots of a valid document\<close>

lemma licenseLoop_iff: "licenseLoop l licenses \<longleftrightarrow> l \<in> set licenses"
  by (induction licenses) auto

lemma printSlice_validExtensions: "printSlice validExtensions = ''[.png .jpg .jpeg]''"
  by (simp add: printSlice_def validExtensions_def)

lemma printSlice_allowedLicenses:
  "printSlice allowedLicenses =
     ''[FSFAP MIT 0BSD CC0-1.0 CC-BY-3.0 CC-BY-4.0 CC-BY-SA-3.0 CC-BY-SA-4.0 GFDL-1.1 GFDL-1.2 GFDL-1.3 BSL-1.0 FTL FSFUL]''"
  by (simp add: printSlice_def allowedLicenses_def)

lemma checkPrefix_eq:
  "checkPrefix s =
     (if length s = 7 \<and> s \<noteq> ''http://'' then ([], Inl RuntimePanic)
      else if prefix ''http://'' s \<or> prefix ''https://'' s then ([], Inr ())
      else ([''Error: Image source must start with http:// or https://''], Inl (OsExit 1)))"
  by (simp add: checkPrefix_def badPrefix_eq)

lemma checkPrefix_pass_length:
  assumes "checkPrefix s = ([], Inr ())"
  shows "7 \<le> length s"
proof -
  from assms have "prefix ''http://'' s \<or> prefix ''https://'' s"
    by (simp add: checkPrefix_eq split: if_splits)
  then show ?thesis
    using prefix_length_le [of "''http://''" s] prefix_length_le [of "''https://''" s] by auto
qed

lemma checkExtension_eq:
  assumes "7 \<le> length s"
  shows "checkExtension s =
     (if suffix ''.png'' s \<or> suffix ''.jpg'' s \<or> suffix ''.jpeg'' s then ([], Inr ())
      else ([''Error: Image source must end with a valid image extension'',
             ''Valid extensions: [.png .jpg .jpeg]'',
             ''Actual extension: '' @ drop (length s - 4) s],
            Inl (OsExit 1)))"
proof -
  from assms have "nat (int (length s) - 4) = length s - 4" by simp
  with assms show ?thesis
    by (simp add: checkExtension_def extensionLoop_eq sliceFrom_def printSlice_validExtensions)
qed

lemma prefix_same_length: "prefix p s \<Longrightarrow> length s = length p \<Longrightarrow> s = p"
  by (auto simp add: prefix_def)

lemma checkScreenshot_pass:
  assumes "ImageType (Image screenshot) = ''source'' \<or> ImageType (Image screenshot) = ''video''
      \<or> ImageType (Image screenshot) = ''''"
    and "ImageType (Image screenshot) = ''source'' \<longrightarrow>
      (prefix ''http://'' (Source (Image screenshot)) \<or> prefix ''https://'' (Source (Image screenshot)))
      \<and> (suffix ''.png'' (Source (Image screenshot)) \<or> suffix ''.jpg'' (Source (Image screenshot))
         \<or> suffix ''.jpeg'' (Source (Image screenshot)))"
  shows "checkScreenshot screenshot = ([], Inr ())"
proof (cases "ImageType (Image screenshot) = ''source''")
  case True
  with assms(2) have pre: "prefix ''http://'' (Source (Image screenshot))
      \<or> prefix ''https://'' (Source (Image screenshot))"
    and suf: "suffix ''.png'' (Source (Image screenshot)) \<or> suffix ''.jpg'' (Source (Image screenshot))
         \<or> suffix ''.jpeg'' (Source (Image screenshot))"
    by simp_all
  from pre have "Source (Image screenshot) = ''http://'' \<or> length (Source (Image screenshot)) \<noteq> 7"
    using prefix_length_le [of "''https://''" "Source (Image screenshot)"]
      prefix_same_length [of "''http://''" "Source (Image screenshot)"]
    by auto
  with pre have p: "checkPrefix (Source (Image screenshot)) = ([], Inr ())"
    by (auto simp add: checkPrefix_eq)
  then have "7 \<le> length (Source (Image screenshot))"
    by (rule checkPrefix_pass_length)
  with suf have "checkExtension (Source (Image screenshot)) = ([], Inr ())"
    by (simp add: checkExtension_eq)
  with p True show ?thesis
    by (simp add: checkScreenshot_def)
next
  case False
  with assms(1) show ?thesis
    by (auto simp add: checkScreenshot_def)
qed

lemma checkScreenshots_pass:
  assumes "\<forall>screenshot\<in>set (Screenshots component).
      (ImageType (Image screenshot) = ''source'' \<or> ImageType (Image screenshot) = ''video''
        \<or> ImageType (Image screenshot) = '''')
      \<and> (ImageType (Image screenshot) = ''source'' \<longrightarrow>
        (prefix ''http://'' (Source (Image screenshot)) \<or> prefix ''https://'' (Source (Image screenshot)))
        \<and> (suffix ''.png'' (Source (Image screenshot)) \<or> suffix ''.jpg'' (Source (Image screenshot))
           \<or> suffix ''.jpeg'' (Source (Image screenshot))))"
  shows "checkScreenshots component =
     (if Screenshots component = [] then [''Warning: No screenshots tag found''] else [], Inr ())"
proof (cases "Screenshots component = []")
  case True
  then show ?thesis by (simp add: checkScreenshots_def)
next
  case False
  have "\<forall>x\<in>set (map checkScreenshot (Screenshots component)). x = ([], Inr ())"
    using assms by (simp add: checkScreenshot_pass)
  then have "runSteps (map checkScreenshot (Screenshots component)) = ([], Inr ())"
    by (rule runSteps_all_pass)
  with False show ?thesis by (simp add: checkScreenshots_def)
qed

subsection \<open>A screenshot of type source in the run\<close>

lemma checkScreenshot_source:
  assumes "ImageType (Image screenshot) = ''source''"
    and "checkPrefix (Source (Image screenshot)) = ([], Inr ())"
  shows "checkScreenshot screenshot = checkExtension (Source (Image screenshot))"
  using assms
  by (cases "checkExtension (Source (Image screenshot))")
    (simp add: checkScreenshot_def runSteps_Cons split: sum.splits)

lemma checkScreenshots_Cons:
  assumes "Screenshots component = screenshot # rest"
  shows "checkScreenshots component = runSteps (checkScreenshot screenshot # map checkScreenshot rest)"
  using assms by (simp add: checkScreenshots_def)

lemma main_stops_at_screenshots:
  assumes "checkFilename filePath component = ([], Inr ())"
    and "checkRequiredFields order component = ([], Inr ())"
    and "checkType component = ([], Inr ())"
    and "checkName component = ([], Inr ())"
    and "checkSummary component = ([], Inr ())"
    and "checkLaunchable component = ([], Inr ())"
    and "checkScreenshots component = (out, Inl e)"
  shows "main order filePath component = (fst (checkMetadataLicense component) @ out, Inl e)"
  using assms snd_checkMetadataLicense [of component]
  by (simp add: main_def runSteps_Cons)

lemma length_thresholds_in_bytes:
  "(checkName component = ([''Error: Name must be at least 2 characters long''], Inl (OsExit 1))
      \<longleftrightarrow> length (Name component) < 2)
   \<and> (checkName component = ([], Inr ()) \<longleftrightarrow> 2 \<le> length (Name component))
   \<and> (checkSummary component = ([''Error: Summary must be at least 10 characters long''], Inl (OsExit 1))
      \<longleftrightarrow> length (Summary component) < 10)
   \<and> (checkSummary component = ([], Inr ()) \<longleftrightarrow> 10 \<le> length (Summary component))"
  by (auto simp add: checkName_def checkSummary_def)

section \<open>The claims\<close>

text \<open>
  C1. What the prefix check does on every source string: it panics on the slice
  \<^verbatim>\<open>s[:8]\<close> exactly when the string has 7 bytes and is not \<^verbatim>\<open>http://\<close>; otherwise it
  passes when the string starts with \<^verbatim>\<open>http://\<close> or \<^verbatim>\<open>https://\<close> and stops with the
  prefix error when it does not (every string shorter than 7 bytes among them). The
  source \<^verbatim>\<open>ftp://x\<close> is such a string of 7 bytes: the run on an otherwise valid document
  ends in the panic, with no error printed.
\<close>

theorem prefix_check_panics_on_seven_bytes:
  "checkPrefix s =
     (if length s = 7 \<and> s \<noteq> ''http://'' then ([], Inl RuntimePanic)
      else if prefix ''http://'' s \<or> prefix ''https://'' s then ([], Inr ())
      else ([''Error: Image source must start with http:// or https://''], Inl (OsExit 1)))
   \<and> checkPrefix ''ftp://x'' = ([], Inl RuntimePanic)
   \<and> main declaredOrder ''org.example.app.metainfo.xml''
        (minimalDocument\<lparr>Screenshots := [sourceScreenshot ''ftp://x'']\<rparr>)
       = ([], Inl RuntimePanic)"
proof -
  have "main declaredOrder ''org.example.app.metainfo.xml''
        (minimalDocument\<lparr>Screenshots := [sourceScreenshot ''ftp://x'']\<rparr>)
       = ([], Inl RuntimePanic)"
    by (simp add: check_defs sourceScreenshot_def)
  moreover have "checkPrefix ''ftp://x'' = ([], Inl RuntimePanic)"
    by (simp add: checkPrefix_def badPrefix_def sliceTo_def)
  ultimately show ?thesis
    using checkPrefix_eq [of s] by (intro conjI)
qed

text \<open>
  C2, as stated, fails. With an empty ID the two accepted filenames are
  \<^verbatim>\<open>.appdata.xml\<close> and \<^verbatim>\<open>.metainfo.xml\<close>: for them the filename check passes, and the
  error of the run is the presence error of the loop over the required fields.
\<close>

theorem empty_id_passes_filename_check_counterexample:
  "ID (minimalDocument\<lparr>ID := ''''\<rparr>) = ''''
   \<and> checkFilename ''.appdata.xml'' (minimalDocument\<lparr>ID := ''''\<rparr>) = ([], Inr ())
   \<and> main declaredOrder ''.appdata.xml'' (minimalDocument\<lparr>ID := ''''\<rparr>)
       = ([''Error: ID must not be empty''], Inl (OsExit 1))"
  by (simp add: check_defs)

text \<open>
  C2, amended. For every document whose ID is empty: any filename other than
  \<^verbatim>\<open>.appdata.xml\<close> and \<^verbatim>\<open>.metainfo.xml\<close> ends the run with the filename error and
  exit code 1; for these two filenames the filename check passes, and whatever order the
  \<^verbatim>\<open>range\<close> takes the run ends with the presence error of a field that is empty.
\<close>

theorem empty_id_rejected:
  assumes "ID component = []"
  shows "(filePath \<noteq> ''.appdata.xml'' \<and> filePath \<noteq> ''.metainfo.xml''
      \<longrightarrow> main order filePath component =
          ([''Error: Filename must be the same as the ID with .appdata.xml extension'',
            ''Correct filename: .metainfo.xml'',
            ''Actual filename: '' @ filePath],
           Inl (OsExit 1)))
    \<and> (path = ''.appdata.xml'' \<or> path = ''.metainfo.xml''
      \<longrightarrow> checkFilename path component = ([], Inr ())
        \<and> (rangeOrder (requiredFields component) order
          \<longrightarrow> (\<exists>field. (field, []) \<in> set (requiredFields component)
                \<and> main order path component
                    = ([''Error: '' @ field @ '' must not be empty''], Inl (OsExit 1)))))"
proof (intro conjI impI)
  assume "filePath \<noteq> ''.appdata.xml'' \<and> filePath \<noteq> ''.metainfo.xml''"
  with assms show "main order filePath component =
          ([''Error: Filename must be the same as the ID with .appdata.xml extension'',
            ''Correct filename: .metainfo.xml'',
            ''Actual filename: '' @ filePath],
           Inl (OsExit 1))"
    by (simp add: main_step1_fail checkFilename_def)
next
  assume "path = ''.appdata.xml'' \<or> path = ''.metainfo.xml''"
  with assms show "checkFilename path component = ([], Inr ())"
    by (simp add: checkFilename_def)
next
  assume path: "path = ''.appdata.xml'' \<or> path = ''.metainfo.xml''"
    and order: "rangeOrder (requiredFields component) order"
  from path assms have pass: "checkFilename path component = ([], Inr ())"
    by (simp add: checkFilename_def)
  from assms have "Type component = [] \<or> ID component = [] \<or> Name component = []
    \<or> Summary component = [] \<or> MetadataLicense component = [] \<or> ProjectLicense component = []
    \<or> Description component = [] \<or> LaunchableType (Launchable component) = []
    \<or> Contents (Launchable component) = []"
    by simp
  from checkRequiredFields_stops [OF order this]
  obtain field where empty: "(field, []) \<in> set (requiredFields component)"
    and stop: "checkRequiredFields order component
       = ([''Error: '' @ field @ '' must not be empty''], Inl (OsExit 1))"
    by blast
  from main_stops_at_required [OF pass stop] empty
  show "\<exists>field. (field, []) \<in> set (requiredFields component)
                \<and> main order path component
                    = ([''Error: '' @ field @ '' must not be empty''], Inl (OsExit 1))"
    by (intro exI [of _ field] conjI)
qed

theorem empty_id_rejected_witness:
  "ID (minimalDocument\<lparr>ID := ''''\<rparr>) = ''''
   \<and> main declaredOrder ''app.xml'' (minimalDocument\<lparr>ID := ''''\<rparr>) =
          ([''Error: Filename must be the same as the ID with .appdata.xml extension'',
            ''Correct filename: .metainfo.xml'',
            ''Actual filename: app.xml''],
           Inl (OsExit 1))
   \<and> checkFilename ''.metainfo.xml'' (minimalDocument\<lparr>ID := ''''\<rparr>) = ([], Inr ())
   \<and> rangeOrder (requiredFields (minimalDocument\<lparr>ID := ''''\<rparr>)) declaredOrder
   \<and> (\<exists>field. (field, []) \<in> set (requiredFields (minimalDocument\<lparr>ID := ''''\<rparr>))
        \<and> main declaredOrder ''.metainfo.xml'' (minimalDocument\<lparr>ID := ''''\<rparr>)
            = ([''Error: '' @ field @ '' must not be empty''], Inl (OsExit 1)))"
proof -
  have empty: "ID (minimalDocument\<lparr>ID := ''''\<rparr>) = []"
    by simp
  note inst = empty_id_rejected [OF empty, where filePath = "''app.xml''"
      and path = "''.metainfo.xml''" and order = declaredOrder]
  from inst have "main declaredOrder ''app.xml'' (minimalDocument\<lparr>ID := ''''\<rparr>) =
          ([''Error: Filename must be the same as the ID with .appdata.xml extension'',
            ''Correct filename: .metainfo.xml'',
            ''Actual filename: app.xml''],
           Inl (OsExit 1))"
    by simp
  moreover from inst have "checkFilename ''.metainfo.xml'' (minimalDocument\<lparr>ID := ''''\<rparr>) = ([], Inr ())"
    by simp
  moreover from inst rangeOrder_declaredOrder
  have "\<exists>field. (field, []) \<in> set (requiredFields (minimalDocument\<lparr>ID := ''''\<rparr>))
        \<and> main declaredOrder ''.metainfo.xml'' (minimalDocument\<lparr>ID := ''''\<rparr>)
            = ([''Error: '' @ field @ '' must not be empty''], Inl (OsExit 1))"
    by simp
  ultimately show ?thesis
    using empty rangeOrder_declaredOrder by simp
qed

text \<open>
  C3. For every document and filename, the run stops at the filename check, with the
  three lines of the filename error and exit code 1, if and only if the filename differs
  from both \<^verbatim>\<open>ID + ".appdata.xml"\<close> and \<^verbatim>\<open>ID + ".metainfo.xml"\<close>; the filename check
  passes if and only if the filename equals one of the two.
\<close>

theorem filename_correlation_iff:
  "(main order filePath component =
      ([''Error: Filename must be the same as the ID with .appdata.xml extension'',
        ''Correct filename: '' @ ID component @ ''.metainfo.xml'',
        ''Actual filename: '' @ filePath],
       Inl (OsExit 1))
    \<longleftrightarrow> filePath \<noteq> ID component @ ''.appdata.xml'' \<and> filePath \<noteq> ID component @ ''.metainfo.xml'')
   \<and> (checkFilename filePath component = ([], Inr ())
    \<longleftrightarrow> filePath = ID component @ ''.appdata.xml'' \<or> filePath = ID component @ ''.metainfo.xml'')"
proof -
  have fwd: "filePath \<noteq> ID component @ ''.appdata.xml'' \<and> filePath \<noteq> ID component @ ''.metainfo.xml''"
    if run: "main order filePath component =
      ([''Error: Filename must be the same as the ID with .appdata.xml extension'',
        ''Correct filename: '' @ ID component @ ''.metainfo.xml'',
        ''Actual filename: '' @ filePath],
       Inl (OsExit 1))"
  proof -
    have "\<not> (filePath = ID component @ ''.appdata.xml'' \<or> filePath = ID component @ ''.metainfo.xml'')"
    proof
      assume "filePath = ID component @ ''.appdata.xml'' \<or> filePath = ID component @ ''.metainfo.xml''"
      from main_step1_pass [OF this, of order] run
      have "runSteps
         [checkRequiredFields order component,
          checkType component,
          checkMetadataLicense component,
          checkName component,
          checkSummary component,
          checkLaunchable component,
          checkScreenshots component,
          ([''Validation complete.''], Inr ())] =
        ([''Error: Filename must be the same as the ID with .appdata.xml extension'',
          ''Correct filename: '' @ ID component @ ''.metainfo.xml'',
          ''Actual filename: '' @ filePath],
         Inl (OsExit 1))"
        by (rule trans [OF sym])
      then have "''Error: Filename must be the same as the ID with .appdata.xml extension''
        \<in> set (fst (runSteps
         [checkRequiredFields order component,
          checkType component,
          checkMetadataLicense component,
          checkName component,
          checkSummary component,
          checkLaunchable component,
          checkScreenshots component,
          ([''Validation complete.''], Inr ())]))"
        by simp
      with filename_line_notin_rest [of order component] show False by simp
    qed
    then show ?thesis by simp
  qed
  have bwd: "main order filePath component =
      ([''Error: Filename must be the same as the ID with .appdata.xml extension'',
        ''Correct filename: '' @ ID component @ ''.metainfo.xml'',
        ''Actual filename: '' @ filePath],
       Inl (OsExit 1))"
    if "filePath \<noteq> ID component @ ''.appdata.xml'' \<and> filePath \<noteq> ID component @ ''.metainfo.xml''"
    using that by (simp add: main_step1_fail checkFilename_def)
  have pass: "checkFilename filePath component = ([], Inr ())
    \<longleftrightarrow> filePath = ID component @ ''.appdata.xml'' \<or> filePath = ID component @ ''.metainfo.xml''"
    by (simp add: checkFilename_def)
  from iffI [OF fwd bwd] pass show ?thesis by (rule conjI)
qed

theorem filename_correlation_iff_witness:
  "main declaredOrder ''app.xml'' minimalDocument =
      ([''Error: Filename must be the same as the ID with .appdata.xml extension'',
        ''Correct filename: org.example.app.metainfo.xml'',
        ''Actual filename: app.xml''],
       Inl (OsExit 1))
   \<and> checkFilename ''org.example.app.appdata.xml'' minimalDocument = ([], Inr ())
   \<and> checkFilename ''org.example.app.metainfo.xml'' minimalDocument = ([], Inr ())"
  using filename_correlation_iff [of declaredOrder "''app.xml''" minimalDocument]
    filename_correlation_iff [of declaredOrder "''org.example.app.appdata.xml''" minimalDocument]
    filename_correlation_iff [of declaredOrder "''org.example.app.metainfo.xml''" minimalDocument]
  by (simp add: minimalDocument_def)

text \<open>
  C4. Whatever order the \<^verbatim>\<open>range\<close> takes: when one of the nine required fields is
  empty, the loop stops with the presence error of a field that is empty, and a run that
  has passed the filename check ends with that error and exit code 1; when all nine are
  non-empty the loop prints nothing and the run goes on.
\<close>

theorem required_fields_presence:
  assumes "rangeOrder (requiredFields component) order"
  shows "(Type component = [] \<or> ID component = [] \<or> Name component = []
        \<or> Summary component = [] \<or> MetadataLicense component = [] \<or> ProjectLicense component = []
        \<or> Description component = [] \<or> LaunchableType (Launchable component) = []
        \<or> Contents (Launchable component) = []
      \<longrightarrow> (\<exists>field. (field, []) \<in> set (requiredFields component)
            \<and> checkRequiredFields order component
                = ([''Error: '' @ field @ '' must not be empty''], Inl (OsExit 1))
            \<and> (checkFilename filePath component = ([], Inr ())
               \<longrightarrow> main order filePath component
                   = ([''Error: '' @ field @ '' must not be empty''], Inl (OsExit 1)))))
    \<and> (Type component \<noteq> [] \<and> ID component \<noteq> [] \<and> Name component \<noteq> []
        \<and> Summary component \<noteq> [] \<and> MetadataLicense component \<noteq> [] \<and> ProjectLicense component \<noteq> []
        \<and> Description component \<noteq> [] \<and> LaunchableType (Launchable component) \<noteq> []
        \<and> Contents (Launchable component) \<noteq> []
      \<longrightarrow> checkRequiredFields order component = ([], Inr ()))"
proof (intro conjI impI)
  assume "Type component = [] \<or> ID component = [] \<or> Name component = []
        \<or> Summary component = [] \<or> MetadataLicense component = [] \<or> ProjectLicense component = []
        \<or> Description component = [] \<or> LaunchableType (Launchable component) = []
        \<or> Contents (Launchable component) = []"
  from checkRequiredFields_stops [OF assms this]
  obtain field where empty: "(field, []) \<in> set (requiredFields component)"
    and stop: "checkRequiredFields order component
       = ([''Error: '' @ field @ '' must not be empty''], Inl (OsExit 1))"
    by blast
  have "checkFilename filePath component = ([], Inr ())
      \<longrightarrow> main order filePath component
          = ([''Error: '' @ field @ '' must not be empty''], Inl (OsExit 1))"
    using stop by (simp add: main_stops_at_required)
  with empty stop
  show "\<exists>field. (field, []) \<in> set (requiredFields component)
            \<and> checkRequiredFields order component
                = ([''Error: '' @ field @ '' must not be empty''], Inl (OsExit 1))
            \<and> (checkFilename filePath component = ([], Inr ())
               \<longrightarrow> main order filePath component
                   = ([''Error: '' @ field @ '' must not be empty''], Inl (OsExit 1)))"
    by (intro exI [of _ field] conjI)
next
  assume "Type component \<noteq> [] \<and> ID component \<noteq> [] \<and> Name component \<noteq> []
        \<and> Summary component \<noteq> [] \<and> MetadataLicense component \<noteq> [] \<and> ProjectLicense component \<noteq> []
        \<and> Description component \<noteq> [] \<and> LaunchableType (Launchable component) \<noteq> []
        \<and> Contents (Launchable component) \<noteq> []"
  then show "checkRequiredFields order component = ([], Inr ())"
    by (intro requiredFields_all_nonempty) simp_all
qed

theorem required_fields_presence_witness:
  "rangeOrder (requiredFields (minimalDocument\<lparr>Summary := ''''\<rparr>)) declaredOrder
   \<and> checkFilename ''org.example.app.metainfo.xml'' (minimalDocument\<lparr>Summary := ''''\<rparr>) = ([], Inr ())
   \<and> (\<exists>field. (field, []) \<in> set (requiredFields (minimalDocument\<lparr>Summary := ''''\<rparr>))
        \<and> main declaredOrder ''org.example.app.metainfo.xml'' (minimalDocument\<lparr>Summary := ''''\<rparr>)
            = ([''Error: '' @ field @ '' must not be empty''], Inl (OsExit 1)))
   \<and> checkRequiredFields declaredOrder minimalDocument = ([], Inr ())"
proof -
  have pass: "checkFilename ''org.example.app.metainfo.xml'' (minimalDocument\<lparr>Summary := ''''\<rparr>) = ([], Inr ())"
    by (simp add: checkFilename_def minimalDocument_def)
  have empty: "Summary (minimalDocument\<lparr>Summary := ''''\<rparr>) = []"
    by simp
  have full: "Type minimalDocument \<noteq> [] \<and> ID minimalDocument \<noteq> [] \<and> Name minimalDocument \<noteq> []
        \<and> Summary minimalDocument \<noteq> [] \<and> MetadataLicense minimalDocument \<noteq> []
        \<and> ProjectLicense minimalDocument \<noteq> []
        \<and> Description minimalDocument \<noteq> [] \<and> LaunchableType (Launchable minimalDocument) \<noteq> []
        \<and> Contents (Launchable minimalDocument) \<noteq> []"
    by (simp add: minimalDocument_def)
  from required_fields_presence [OF rangeOrder_declaredOrder,
      where component = "minimalDocument\<lparr>Summary := ''''\<rparr>"
        and filePath = "''org.example.app.metainfo.xml''"] pass empty
  have "\<exists>field. (field, []) \<in> set (requiredFields (minimalDocument\<lparr>Summary := ''''\<rparr>))
        \<and> main declaredOrder ''org.example.app.metainfo.xml'' (minimalDocument\<lparr>Summary := ''''\<rparr>)
            = ([''Error: '' @ field @ '' must not be empty''], Inl (OsExit 1))"
    by blast
  moreover from required_fields_presence [OF rangeOrder_declaredOrder, where component = minimalDocument] full
  have "checkRequiredFields declaredOrder minimalDocument = ([], Inr ())"
    by blast
  ultimately show ?thesis
    using pass rangeOrder_declaredOrder by blast
qed

text \<open>
  C5. A document that satisfies every mandatory rule is accepted whatever its metadata
  license and whether or not it has screenshots: \<^verbatim>\<open>main\<close> returns, and its output is the
  three lines of the license warning (once, with the allowed licenses and the actual
  one) when the license is not in the list, then the warning for no screenshots when
  the list of screenshots is empty, then the final line, and nothing else.
\<close>

theorem advisory_warnings_keep_verdict:
  assumes "filePath = ID component @ ''.appdata.xml'' \<or> filePath = ID component @ ''.metainfo.xml''"
    and "Type component \<noteq> [] \<and> ID component \<noteq> [] \<and> Name component \<noteq> []
        \<and> Summary component \<noteq> [] \<and> MetadataLicense component \<noteq> [] \<and> ProjectLicense component \<noteq> []
        \<and> Description component \<noteq> [] \<and> LaunchableType (Launchable component) \<noteq> []
        \<and> Contents (Launchable component) \<noteq> []"
    and "Type component = ''desktop-application'' \<or> Type component = ''desktop''"
    and "2 \<le> length (Name component)"
    and "10 \<le> length (Summary component)"
    and "LaunchableType (Launchable component) = ''desktop-id''"
    and "\<forall>screenshot\<in>set (Screenshots component).
      (ImageType (Image screenshot) = ''source'' \<or> ImageType (Image screenshot) = ''video''
        \<or> ImageType (Image screenshot) = '''')
      \<and> (ImageType (Image screenshot) = ''source'' \<longrightarrow>
        (prefix ''http://'' (Source (Image screenshot)) \<or> prefix ''https://'' (Source (Image screenshot)))
        \<and> (suffix ''.png'' (Source (Image screenshot)) \<or> suffix ''.jpg'' (Source (Image screenshot))
           \<or> suffix ''.jpeg'' (Source (Image screenshot))))"
  shows "main order filePath component =
     ((if MetadataLicense component \<in> set allowedLicenses then []
       else [''Warning: Metadata license is not allowed'',
             ''Allowed licenses: [FSFAP MIT 0BSD CC0-1.0 CC-BY-3.0 CC-BY-4.0 CC-BY-SA-3.0 CC-BY-SA-4.0 GFDL-1.1 GFDL-1.2 GFDL-1.3 BSL-1.0 FTL FSFUL]'',
             ''Actual license: '' @ MetadataLicense component])
      @ (if Screenshots component = [] then [''Warning: No screenshots tag found''] else [])
      @ [''Validation complete.''],
      Inr ())"
proof -
  have s1: "checkFilename filePath component = ([], Inr ())"
    using assms(1) by (auto simp add: checkFilename_def)
  have s2: "checkRequiredFields order component = ([], Inr ())"
    using assms(2) by (intro requiredFields_all_nonempty) simp_all
  have s3: "checkType component = ([], Inr ())"
    using assms(3) by (auto simp add: checkType_def)
  have s4: "checkMetadataLicense component =
     (if MetadataLicense component \<in> set allowedLicenses then []
       else [''Warning: Metadata license is not allowed'',
             ''Allowed licenses: [FSFAP MIT 0BSD CC0-1.0 CC-BY-3.0 CC-BY-4.0 CC-BY-SA-3.0 CC-BY-SA-4.0 GFDL-1.1 GFDL-1.2 GFDL-1.3 BSL-1.0 FTL FSFUL]'',
             ''Actual license: '' @ MetadataLicense component], Inr ())"
    by (simp add: checkMetadataLicense_def licenseLoop_iff printSlice_allowedLicenses)
  have s5: "checkName component = ([], Inr ())"
    using assms(4) by (simp add: checkName_def)
  have s6: "checkSummary component = ([], Inr ())"
    using assms(5) by (simp add: checkSummary_def)
  have s7: "checkLaunchable component = ([], Inr ())"
    using assms(6) by (simp add: checkLaunchable_def)
  have s8: "checkScreenshots component =
     (if Screenshots component = [] then [''Warning: No screenshots tag found''] else [], Inr ())"
    using assms(7) by (rule checkScreenshots_pass)
  show ?thesis
    unfolding main_def s1 s2 s3 s4 s5 s6 s7 s8 by simp
qed

theorem advisory_warnings_keep_verdict_witness:
  "main declaredOrder ''org.example.app.metainfo.xml''
     (minimalDocument\<lparr>MetadataLicense := ''GPL-3.0'',
        Screenshots := [sourceScreenshot ''https://example.com/a.png'']\<rparr>)
     = ([''Warning: Metadata license is not allowed'',
         ''Allowed licenses: [FSFAP MIT 0BSD CC0-1.0 CC-BY-3.0 CC-BY-4.0 CC-BY-SA-3.0 CC-BY-SA-4.0 GFDL-1.1 GFDL-1.2 GFDL-1.3 BSL-1.0 FTL FSFUL]'',
         ''Actual license: GPL-3.0'',
         ''Validation complete.''],
        Inr ())
   \<and> main declaredOrder ''org.example.app.metainfo.xml'' minimalDocument
     = ([''Warning: No screenshots tag found'', ''Validation complete.''], Inr ())"
proof -
  let ?d = "minimalDocument\<lparr>MetadataLicense := ''GPL-3.0'',
        Screenshots := [sourceScreenshot ''https://example.com/a.png'']\<rparr>"
  have a1: "''org.example.app.metainfo.xml'' = ID ?d @ ''.appdata.xml''
      \<or> ''org.example.app.metainfo.xml'' = ID ?d @ ''.metainfo.xml''"
    by (simp add: minimalDocument_def)
  have a2: "Type ?d \<noteq> [] \<and> ID ?d \<noteq> [] \<and> Name ?d \<noteq> []
        \<and> Summary ?d \<noteq> [] \<and> MetadataLicense ?d \<noteq> [] \<and> ProjectLicense ?d \<noteq> []
        \<and> Description ?d \<noteq> [] \<and> LaunchableType (Launchable ?d) \<noteq> []
        \<and> Contents (Launchable ?d) \<noteq> []"
    by (simp add: minimalDocument_def)
  have a3: "Type ?d = ''desktop-application'' \<or> Type ?d = ''desktop''"
    by (simp add: minimalDocument_def)
  have a4: "2 \<le> length (Name ?d)"
    by (simp add: minimalDocument_def)
  have a5: "10 \<le> length (Summary ?d)"
    by (simp add: minimalDocument_def)
  have a6: "LaunchableType (Launchable ?d) = ''desktop-id''"
    by (simp add: minimalDocument_def)
  have a7: "\<forall>screenshot\<in>set (Screenshots ?d).
      (ImageType (Image screenshot) = ''source'' \<or> ImageType (Image screenshot) = ''video''
        \<or> ImageType (Image screenshot) = '''')
      \<and> (ImageType (Image screenshot) = ''source'' \<longrightarrow>
        (prefix ''http://'' (Source (Image screenshot)) \<or> prefix ''https://'' (Source (Image screenshot)))
        \<and> (suffix ''.png'' (Source (Image screenshot)) \<or> suffix ''.jpg'' (Source (Image screenshot))
           \<or> suffix ''.jpeg'' (Source (Image screenshot))))"
    by (simp add: sourceScreenshot_def suffix_to_prefix)
  have b1: "''org.example.app.metainfo.xml'' = ID minimalDocument @ ''.appdata.xml''
      \<or> ''org.example.app.metainfo.xml'' = ID minimalDocument @ ''.metainfo.xml''"
    by (simp add: minimalDocument_def)
  have b2: "Type minimalDocument \<noteq> [] \<and> ID minimalDocument \<noteq> [] \<and> Name minimalDocument \<noteq> []
        \<and> Summary minimalDocument \<noteq> [] \<and> MetadataLicense minimalDocument \<noteq> []
        \<and> ProjectLicense minimalDocument \<noteq> []
        \<and> Description minimalDocument \<noteq> [] \<and> LaunchableType (Launchable minimalDocument) \<noteq> []
        \<and> Contents (Launchable minimalDocument) \<noteq> []"
    by (simp add: minimalDocument_def)
  have b3: "Type minimalDocument = ''desktop-application'' \<or> Type minimalDocument = ''desktop''"
    by (simp add: minimalDocument_def)
  have b4: "2 \<le> length (Name minimalDocument)"
    by (simp add: minimalDocument_def)
  have b5: "10 \<le> length (Summary minimalDocument)"
    by (simp add: minimalDocument_def)
  have b6: "LaunchableType (Launchable minimalDocument) = ''desktop-id''"
    by (simp add: minimalDocument_def)
  have b7: "\<forall>screenshot\<in>set (Screenshots minimalDocument).
      (ImageType (Image screenshot) = ''source'' \<or> ImageType (Image screenshot) = ''video''
        \<or> ImageType (Image screenshot) = '''')
      \<and> (ImageType (Image screenshot) = ''source'' \<longrightarrow>
        (prefix ''http://'' (Source (Image screenshot)) \<or> prefix ''https://'' (Source (Image screenshot)))
        \<and> (suffix ''.png'' (Source (Image screenshot)) \<or> suffix ''.jpg'' (Source (Image screenshot))
           \<or> suffix ''.jpeg'' (Source (Image screenshot))))"
    by (simp add: minimalDocument_def)
  from advisory_warnings_keep_verdict [OF a1 a2 a3 a4 a5 a6 a7, of declaredOrder]
  have "main declaredOrder ''org.example.app.metainfo.xml'' ?d
     = ([''Warning: Metadata license is not allowed'',
         ''Allowed licenses: [FSFAP MIT 0BSD CC0-1.0 CC-BY-3.0 CC-BY-4.0 CC-BY-SA-3.0 CC-BY-SA-4.0 GFDL-1.1 GFDL-1.2 GFDL-1.3 BSL-1.0 FTL FSFUL]'',
         ''Actual license: GPL-3.0'',
         ''Validation complete.''],
        Inr ())"
    by (simp add: allowedLicenses_def)
  moreover from advisory_warnings_keep_verdict [OF b1 b2 b3 b4 b5 b6 b7, of declaredOrder]
  have "main declaredOrder ''org.example.app.metainfo.xml'' minimalDocument
     = ([''Warning: No screenshots tag found'', ''Validation complete.''], Inr ())"
    by (simp add: allowedLicenses_def minimalDocument_def)
  ultimately show ?thesis by (rule conjI)
qed

text \<open>
  C6. For a source that has passed the prefix check, the extension check passes if and
  only if the source ends, byte for byte, with \<^verbatim>\<open>.png\<close>, \<^verbatim>\<open>.jpg\<close> or \<^verbatim>\<open>.jpeg\<close>;
  otherwise it prints the error, the valid extensions and the last four bytes of the
  source, and exits with code 1. The loop over the extensions panics on no string at all.
  For a screenshot whose image has type \<^verbatim>\<open>source\<close> and this source, the body of the
  screenshot loop is this extension check: it passes under the same condition; as the
  first screenshot of a component it ends the loop with the three lines when the
  extension is wrong and hands over to the next screenshot otherwise; and a run that
  has passed every check before the screenshots ends with the license warning, if any,
  followed by the three lines, and exit code 1.
\<close>

theorem extension_check_iff:
  assumes "checkPrefix s = ([], Inr ())"
  shows "(checkExtension s = ([], Inr ())
      \<longleftrightarrow> suffix ''.png'' s \<or> suffix ''.jpg'' s \<or> suffix ''.jpeg'' s)
    \<and> checkExtension s =
       (if suffix ''.png'' s \<or> suffix ''.jpg'' s \<or> suffix ''.jpeg'' s then ([], Inr ())
        else ([''Error: Image source must end with a valid image extension'',
               ''Valid extensions: [.png .jpg .jpeg]'',
               ''Actual extension: '' @ drop (length s - 4) s],
              Inl (OsExit 1)))
    \<and> extensionLoop t validExtensions \<noteq> None
    \<and> (ImageType (Image screenshot) = ''source'' \<and> Source (Image screenshot) = s
       \<longrightarrow> checkScreenshot screenshot = checkExtension s
         \<and> (checkScreenshot screenshot = ([], Inr ())
            \<longleftrightarrow> suffix ''.png'' s \<or> suffix ''.jpg'' s \<or> suffix ''.jpeg'' s)
         \<and> (Screenshots component = screenshot # rest
            \<longrightarrow> checkScreenshots component =
               (if suffix ''.png'' s \<or> suffix ''.jpg'' s \<or> suffix ''.jpeg'' s
                then runSteps (map checkScreenshot rest)
                else ([''Error: Image source must end with a valid image extension'',
                       ''Valid extensions: [.png .jpg .jpeg]'',
                       ''Actual extension: '' @ drop (length s - 4) s],
                      Inl (OsExit 1))))
         \<and> (Screenshots component = screenshot # rest
              \<and> checkFilename filePath component = ([], Inr ())
              \<and> checkRequiredFields order component = ([], Inr ())
              \<and> checkType component = ([], Inr ())
              \<and> checkName component = ([], Inr ())
              \<and> checkSummary component = ([], Inr ())
              \<and> checkLaunchable component = ([], Inr ())
              \<and> \<not> (suffix ''.png'' s \<or> suffix ''.jpg'' s \<or> suffix ''.jpeg'' s)
            \<longrightarrow> main order filePath component =
               (fst (checkMetadataLicense component)
                @ [''Error: Image source must end with a valid image extension'',
                   ''Valid extensions: [.png .jpg .jpeg]'',
                   ''Actual extension: '' @ drop (length s - 4) s],
                Inl (OsExit 1))))"
proof -
  from assms have "7 \<le> length s" by (rule checkPrefix_pass_length)
  then have eq: "checkExtension s =
       (if suffix ''.png'' s \<or> suffix ''.jpg'' s \<or> suffix ''.jpeg'' s then ([], Inr ())
        else ([''Error: Image source must end with a valid image extension'',
               ''Valid extensions: [.png .jpg .jpeg]'',
               ''Actual extension: '' @ drop (length s - 4) s],
              Inl (OsExit 1)))"
    by (rule checkExtension_eq)
  then have iff: "checkExtension s = ([], Inr ())
      \<longleftrightarrow> suffix ''.png'' s \<or> suffix ''.jpg'' s \<or> suffix ''.jpeg'' s"
    by (simp split: if_splits)
  have loop: "extensionLoop t validExtensions \<noteq> None"
    by (simp add: extensionLoop_eq)
  have shot: "checkScreenshot screenshot = checkExtension s
         \<and> (checkScreenshot screenshot = ([], Inr ())
            \<longleftrightarrow> suffix ''.png'' s \<or> suffix ''.jpg'' s \<or> suffix ''.jpeg'' s)
         \<and> (Screenshots component = screenshot # rest
            \<longrightarrow> checkScreenshots component =
               (if suffix ''.png'' s \<or> suffix ''.jpg'' s \<or> suffix ''.jpeg'' s
                then runSteps (map checkScreenshot rest)
                else ([''Error: Image source must end with a valid image extension'',
                       ''Valid extensions: [.png .jpg .jpeg]'',
                       ''Actual extension: '' @ drop (length s - 4) s],
                      Inl (OsExit 1))))
         \<and> (Screenshots component = screenshot # rest
              \<and> checkFilename filePath component = ([], Inr ())
              \<and> checkRequiredFields order component = ([], Inr ())
              \<and> checkType component = ([], Inr ())
              \<and> checkName component = ([], Inr ())
              \<and> checkSummary component = ([], Inr ())
              \<and> checkLaunchable component = ([], Inr ())
              \<and> \<not> (suffix ''.png'' s \<or> suffix ''.jpg'' s \<or> suffix ''.jpeg'' s)
            \<longrightarrow> main order filePath component =
               (fst (checkMetadataLicense component)
                @ [''Error: Image source must end with a valid image extension'',
                   ''Valid extensions: [.png .jpg .jpeg]'',
                   ''Actual extension: '' @ drop (length s - 4) s],
                Inl (OsExit 1)))"
    if kind: "ImageType (Image screenshot) = ''source''" and src: "Source (Image screenshot) = s"
  proof -
    from kind src assms have link: "checkScreenshot screenshot = checkExtension s"
      using checkScreenshot_source [of screenshot] by simp
    with iff have pass: "checkScreenshot screenshot = ([], Inr ())
            \<longleftrightarrow> suffix ''.png'' s \<or> suffix ''.jpg'' s \<or> suffix ''.jpeg'' s"
      by simp
    have list: "checkScreenshots component =
               (if suffix ''.png'' s \<or> suffix ''.jpg'' s \<or> suffix ''.jpeg'' s
                then runSteps (map checkScreenshot rest)
                else ([''Error: Image source must end with a valid image extension'',
                       ''Valid extensions: [.png .jpg .jpeg]'',
                       ''Actual extension: '' @ drop (length s - 4) s],
                      Inl (OsExit 1)))"
      if "Screenshots component = screenshot # rest"
      using checkScreenshots_Cons [OF that] link eq by simp
    have run: "main order filePath component =
               (fst (checkMetadataLicense component)
                @ [''Error: Image source must end with a valid image extension'',
                   ''Valid extensions: [.png .jpg .jpeg]'',
                   ''Actual extension: '' @ drop (length s - 4) s],
                Inl (OsExit 1))"
      if "Screenshots component = screenshot # rest
              \<and> checkFilename filePath component = ([], Inr ())
              \<and> checkRequiredFields order component = ([], Inr ())
              \<and> checkType component = ([], Inr ())
              \<and> checkName component = ([], Inr ())
              \<and> checkSummary component = ([], Inr ())
              \<and> checkLaunchable component = ([], Inr ())
              \<and> \<not> (suffix ''.png'' s \<or> suffix ''.jpg'' s \<or> suffix ''.jpeg'' s)"
    proof -
      from that list have "checkScreenshots component =
          ([''Error: Image source must end with a valid image extension'',
            ''Valid extensions: [.png .jpg .jpeg]'',
            ''Actual extension: '' @ drop (length s - 4) s],
           Inl (OsExit 1))"
        by simp
      with that show ?thesis
        by (intro main_stops_at_screenshots) simp_all
    qed
    from link pass list run show ?thesis by (intro conjI impI)
  qed
  from iff eq loop shot show ?thesis by (intro conjI impI) simp_all
qed

theorem extension_check_iff_witness:
  "checkPrefix ''https://example.com/a.png'' = ([], Inr ())
   \<and> checkExtension ''https://example.com/a.png'' = ([], Inr ())
   \<and> checkScreenshot (sourceScreenshot ''https://example.com/a.png'') = ([], Inr ())
   \<and> checkPrefix ''https://example.com/a.gif'' = ([], Inr ())
   \<and> checkExtension ''https://example.com/a.gif'' =
        ([''Error: Image source must end with a valid image extension'',
          ''Valid extensions: [.png .jpg .jpeg]'',
          ''Actual extension: .gif''],
         Inl (OsExit 1))
   \<and> checkScreenshot (sourceScreenshot ''https://example.com/a.gif'') =
        ([''Error: Image source must end with a valid image extension'',
          ''Valid extensions: [.png .jpg .jpeg]'',
          ''Actual extension: .gif''],
         Inl (OsExit 1))
   \<and> main declaredOrder ''org.example.app.metainfo.xml''
        (minimalDocument\<lparr>Screenshots := [sourceScreenshot ''https://example.com/a.gif'']\<rparr>) =
        ([''Error: Image source must end with a valid image extension'',
          ''Valid extensions: [.png .jpg .jpeg]'',
          ''Actual extension: .gif''],
         Inl (OsExit 1))
   \<and> checkPrefix ''http://example.com/A.PNG'' = ([], Inr ())
   \<and> checkExtension ''http://example.com/A.PNG'' =
        ([''Error: Image source must end with a valid image extension'',
          ''Valid extensions: [.png .jpg .jpeg]'',
          ''Actual extension: .PNG''],
         Inl (OsExit 1))
   \<and> extensionLoop ''png'' validExtensions \<noteq> None"
proof -
  let ?gif = "sourceScreenshot ''https://example.com/a.gif''"
  let ?d = "minimalDocument\<lparr>Screenshots := [?gif]\<rparr>"
  have p1: "checkPrefix ''https://example.com/a.png'' = ([], Inr ())"
    by (simp add: checkPrefix_eq)
  have p2: "checkPrefix ''https://example.com/a.gif'' = ([], Inr ())"
    by (simp add: checkPrefix_eq)
  have p3: "checkPrefix ''http://example.com/A.PNG'' = ([], Inr ())"
    by (simp add: checkPrefix_eq)
  have k1: "ImageType (Image (sourceScreenshot ''https://example.com/a.png'')) = ''source''
      \<and> Source (Image (sourceScreenshot ''https://example.com/a.png'')) = ''https://example.com/a.png''"
    by (simp add: sourceScreenshot_def)
  have k2: "ImageType (Image ?gif) = ''source''
      \<and> Source (Image ?gif) = ''https://example.com/a.gif''"
    by (simp add: sourceScreenshot_def)
  have steps: "Screenshots ?d = ?gif # []
      \<and> checkFilename ''org.example.app.metainfo.xml'' ?d = ([], Inr ())
      \<and> checkRequiredFields declaredOrder ?d = ([], Inr ())
      \<and> checkType ?d = ([], Inr ())
      \<and> checkName ?d = ([], Inr ())
      \<and> checkSummary ?d = ([], Inr ())
      \<and> checkLaunchable ?d = ([], Inr ())"
    by (simp add: minimalDocument_def declaredOrder_def checkFilename_def checkRequiredFields_def
        requiredFields_def checkType_def checkName_def checkSummary_def checkLaunchable_def)
  have quiet: "fst (checkMetadataLicense ?d) = []"
    by (simp add: checkMetadataLicense_def allowedLicenses_def minimalDocument_def)
  note png = extension_check_iff [OF p1, where t = "''png''"
      and screenshot = "sourceScreenshot ''https://example.com/a.png''"]
  note gif = extension_check_iff [OF p2, where t = "''png''" and screenshot = ?gif
      and component = ?d and rest = "[]" and filePath = "''org.example.app.metainfo.xml''"
      and order = declaredOrder]
  note upper = extension_check_iff [OF p3, where t = "''png''"]
  from png k1
  have "checkExtension ''https://example.com/a.png'' = ([], Inr ())"
    and "checkScreenshot (sourceScreenshot ''https://example.com/a.png'') = ([], Inr ())"
    and "extensionLoop ''png'' validExtensions \<noteq> None"
    by (simp_all add: suffix_to_prefix)
  moreover from gif
  have "checkExtension ''https://example.com/a.gif'' =
        ([''Error: Image source must end with a valid image extension'',
          ''Valid extensions: [.png .jpg .jpeg]'',
          ''Actual extension: .gif''],
         Inl (OsExit 1))"
    by (simp add: suffix_to_prefix)
  moreover from gif k2
  have "checkScreenshot ?gif = checkExtension ''https://example.com/a.gif''"
    by simp
  moreover from gif k2 steps quiet
  have "main declaredOrder ''org.example.app.metainfo.xml'' ?d =
        ([''Error: Image source must end with a valid image extension'',
          ''Valid extensions: [.png .jpg .jpeg]'',
          ''Actual extension: .gif''],
         Inl (OsExit 1))"
    by (simp add: suffix_to_prefix)
  moreover from upper
  have "checkExtension ''http://example.com/A.PNG'' =
        ([''Error: Image source must end with a valid image extension'',
          ''Valid extensions: [.png .jpg .jpeg]'',
          ''Actual extension: .PNG''],
         Inl (OsExit 1))"
    by (simp add: suffix_to_prefix)
  ultimately show ?thesis using p1 p2 p3 by simp
qed

text \<open>
  C7. The check of the component type stops with its error if and only if the type is
  neither \<^verbatim>\<open>desktop-application\<close> nor \<^verbatim>\<open>desktop\<close>, and passes if and only if it is one
  of the two; a run that has passed the filename check and the required fields and has
  another type ends with exactly this error and exit code 1.
\<close>

theorem component_type_check_iff:
  "(checkType component = ([''Error: Type must be 'desktop-application'' @ [CHR 0x27]], Inl (OsExit 1))
      \<longleftrightarrow> Type component \<noteq> ''desktop-application'' \<and> Type component \<noteq> ''desktop'')
   \<and> (checkType component = ([], Inr ())
      \<longleftrightarrow> Type component = ''desktop-application'' \<or> Type component = ''desktop'')
   \<and> (checkFilename filePath document = ([], Inr ())
        \<and> checkRequiredFields order document = ([], Inr ())
        \<and> Type document \<noteq> ''desktop-application'' \<and> Type document \<noteq> ''desktop''
      \<longrightarrow> main order filePath document =
            ([''Error: Type must be 'desktop-application'' @ [CHR 0x27]], Inl (OsExit 1)))"
  by (simp add: checkType_def main_def)

theorem component_type_check_iff_witness:
  "checkType (minimalDocument\<lparr>Type := ''service''\<rparr>)
     = ([''Error: Type must be 'desktop-application'' @ [CHR 0x27]], Inl (OsExit 1))
   \<and> checkType (minimalDocument\<lparr>Type := ''desktop-application''\<rparr>) = ([], Inr ())
   \<and> checkType (minimalDocument\<lparr>Type := ''desktop''\<rparr>) = ([], Inr ())
   \<and> main declaredOrder ''org.example.app.metainfo.xml'' (minimalDocument\<lparr>Type := ''service''\<rparr>)
     = ([''Error: Type must be 'desktop-application'' @ [CHR 0x27]], Inl (OsExit 1))"
proof -
  have pre: "checkFilename ''org.example.app.metainfo.xml'' (minimalDocument\<lparr>Type := ''service''\<rparr>) = ([], Inr ())
     \<and> checkRequiredFields declaredOrder (minimalDocument\<lparr>Type := ''service''\<rparr>) = ([], Inr ())
     \<and> Type (minimalDocument\<lparr>Type := ''service''\<rparr>) \<noteq> ''desktop-application''
     \<and> Type (minimalDocument\<lparr>Type := ''service''\<rparr>) \<noteq> ''desktop''"
    by (simp add: minimalDocument_def checkFilename_def checkRequiredFields_def requiredFields_def
        declaredOrder_def)
  show ?thesis
    using pre
      component_type_check_iff [where component = "minimalDocument\<lparr>Type := ''service''\<rparr>"
        and filePath = "''org.example.app.metainfo.xml''"
        and document = "minimalDocument\<lparr>Type := ''service''\<rparr>" and order = declaredOrder]
      component_type_check_iff [where component = "minimalDocument\<lparr>Type := ''desktop-application''\<rparr>"]
      component_type_check_iff [where component = "minimalDocument\<lparr>Type := ''desktop''\<rparr>"]
    by (simp add: minimalDocument_def)
qed

text \<open>
  C8. The thresholds 2 and 10 are exact in bytes, not in characters: the name check
  stops with its error exactly when \<^verbatim>\<open>len\<close> of the name is below 2 and the summary check
  exactly when \<^verbatim>\<open>len\<close> of the summary is below 10, and a document with such a name or
  summary always ends with exit code 1. A name of one character that takes two bytes
  (U+00E9, the bytes C3 A9) passes the name check, and a summary of nine characters that
  takes ten bytes passes the summary check: both documents are accepted, though the
  comments and the messages of the code say characters.
\<close>

theorem minimum_length_counts_bytes:
  "(checkName component = ([''Error: Name must be at least 2 characters long''], Inl (OsExit 1))
      \<longleftrightarrow> length (Name component) < 2)
   \<and> (checkName component = ([], Inr ()) \<longleftrightarrow> 2 \<le> length (Name component))
   \<and> (checkSummary component = ([''Error: Summary must be at least 10 characters long''], Inl (OsExit 1))
      \<longleftrightarrow> length (Summary component) < 10)
   \<and> (checkSummary component = ([], Inr ()) \<longleftrightarrow> 10 \<le> length (Summary component))
   \<and> (length (Name document) < 2 \<or> length (Summary document) < 10
      \<longrightarrow> snd (main order filePath document) = Inl (OsExit 1))
   \<and> characters [CHR 0xC3, CHR 0xA9] = 1
   \<and> length [CHR 0xC3, CHR 0xA9] = 2
   \<and> checkName (minimalDocument\<lparr>Name := [CHR 0xC3, CHR 0xA9]\<rparr>) = ([], Inr ())
   \<and> main declaredOrder ''org.example.app.metainfo.xml''
        (minimalDocument\<lparr>Name := [CHR 0xC3, CHR 0xA9]\<rparr>)
       = ([''Warning: No screenshots tag found'', ''Validation complete.''], Inr ())
   \<and> characters (''Caf'' @ [CHR 0xC3, CHR 0xA9] @ '' time'') = 9
   \<and> length (''Caf'' @ [CHR 0xC3, CHR 0xA9] @ '' time'') = 10
   \<and> checkSummary (minimalDocument\<lparr>Summary := ''Caf'' @ [CHR 0xC3, CHR 0xA9] @ '' time''\<rparr>)
       = ([], Inr ())
   \<and> main declaredOrder ''org.example.app.metainfo.xml''
        (minimalDocument\<lparr>Summary := ''Caf'' @ [CHR 0xC3, CHR 0xA9] @ '' time''\<rparr>)
       = ([''Warning: No screenshots tag found'', ''Validation complete.''], Inr ())"
proof -
  have "characters [CHR 0xC3, CHR 0xA9] = 1"
    and "characters (''Caf'' @ [CHR 0xC3, CHR 0xA9] @ '' time'') = 9"
    by (simp_all add: characters_def)
  moreover have "checkName (minimalDocument\<lparr>Name := [CHR 0xC3, CHR 0xA9]\<rparr>) = ([], Inr ())"
    and "checkSummary (minimalDocument\<lparr>Summary := ''Caf'' @ [CHR 0xC3, CHR 0xA9] @ '' time''\<rparr>)
       = ([], Inr ())"
    by (simp_all add: checkName_def checkSummary_def)
  moreover have "main declaredOrder ''org.example.app.metainfo.xml''
        (minimalDocument\<lparr>Name := [CHR 0xC3, CHR 0xA9]\<rparr>)
       = ([''Warning: No screenshots tag found'', ''Validation complete.''], Inr ())"
    by (simp add: check_defs)
  moreover have "main declaredOrder ''org.example.app.metainfo.xml''
        (minimalDocument\<lparr>Summary := ''Caf'' @ [CHR 0xC3, CHR 0xA9] @ '' time''\<rparr>)
       = ([''Warning: No screenshots tag found'', ''Validation complete.''], Inr ())"
    by (simp add: check_defs)
  moreover have "length (Name document) < 2 \<or> length (Summary document) < 10
      \<longrightarrow> snd (main order filePath document) = Inl (OsExit 1)"
    using short_name_exit [of document order filePath] short_summary_exit [of document order filePath]
    by blast
  ultimately show ?thesis
    using length_thresholds_in_bytes [of component] by simp
qed

theorem minimum_length_counts_bytes_witness:
  "checkName (minimalDocument\<lparr>Name := ''''\<rparr>)
     = ([''Error: Name must be at least 2 characters long''], Inl (OsExit 1))
   \<and> checkName (minimalDocument\<lparr>Name := ''H''\<rparr>)
     = ([''Error: Name must be at least 2 characters long''], Inl (OsExit 1))
   \<and> checkName (minimalDocument\<lparr>Name := ''Hi''\<rparr>) = ([], Inr ())
   \<and> checkSummary (minimalDocument\<lparr>Summary := ''Nine char''\<rparr>)
     = ([''Error: Summary must be at least 10 characters long''], Inl (OsExit 1))
   \<and> checkSummary (minimalDocument\<lparr>Summary := ''Ten chars.''\<rparr>) = ([], Inr ())
   \<and> snd (main declaredOrder ''org.example.app.metainfo.xml'' (minimalDocument\<lparr>Name := ''H''\<rparr>))
     = Inl (OsExit 1)
   \<and> snd (main declaredOrder ''org.example.app.metainfo.xml''
        (minimalDocument\<lparr>Summary := ''Nine char''\<rparr>))
     = Inl (OsExit 1)"
  using minimum_length_counts_bytes [where component = "minimalDocument\<lparr>Name := ''''\<rparr>"
      and document = "minimalDocument\<lparr>Name := ''H''\<rparr>" and order = declaredOrder
      and filePath = "''org.example.app.metainfo.xml''"]
    minimum_length_counts_bytes [where component = "minimalDocument\<lparr>Name := ''H''\<rparr>"
      and document = "minimalDocument\<lparr>Summary := ''Nine char''\<rparr>" and order = declaredOrder
      and filePath = "''org.example.app.metainfo.xml''"]
    minimum_length_counts_bytes [where component = "minimalDocument\<lparr>Name := ''Hi''\<rparr>"]
    minimum_length_counts_bytes [where component = "minimalDocument\<lparr>Summary := ''Nine char''\<rparr>"]
    minimum_length_counts_bytes [where component = "minimalDocument\<lparr>Summary := ''Ten chars.''\<rparr>"]
  by (simp add: minimalDocument_def)

text \<open>
  C9, as stated, fails. Two runs on the same document and filename may differ in the
  order that the \<^verbatim>\<open>range\<close> over the map takes; with the type and the name both empty,
  one order reports the type and the reverse order reports the name.
\<close>

theorem presence_error_depends_on_range_order_counterexample:
  "rangeOrder (requiredFields (minimalDocument\<lparr>Type := '''', Name := ''''\<rparr>)) declaredOrder
   \<and> rangeOrder (requiredFields (minimalDocument\<lparr>Type := '''', Name := ''''\<rparr>)) (rev declaredOrder)
   \<and> main declaredOrder ''org.example.app.metainfo.xml'' (minimalDocument\<lparr>Type := '''', Name := ''''\<rparr>)
       = ([''Error: Type must not be empty''], Inl (OsExit 1))
   \<and> main (rev declaredOrder) ''org.example.app.metainfo.xml''
         (minimalDocument\<lparr>Type := '''', Name := ''''\<rparr>)
       = ([''Error: Name must not be empty''], Inl (OsExit 1))
   \<and> main declaredOrder ''org.example.app.metainfo.xml'' (minimalDocument\<lparr>Type := '''', Name := ''''\<rparr>)
       \<noteq> main (rev declaredOrder) ''org.example.app.metainfo.xml''
           (minimalDocument\<lparr>Type := '''', Name := ''''\<rparr>)"
proof -
  have "main declaredOrder ''org.example.app.metainfo.xml'' (minimalDocument\<lparr>Type := '''', Name := ''''\<rparr>)
       = ([''Error: Type must not be empty''], Inl (OsExit 1))"
    by (simp add: check_defs)
  moreover have "main (rev declaredOrder) ''org.example.app.metainfo.xml''
         (minimalDocument\<lparr>Type := '''', Name := ''''\<rparr>)
       = ([''Error: Name must not be empty''], Inl (OsExit 1))"
    by (simp add: check_defs)
  ultimately show ?thesis
    using rangeOrder_declaredOrder rangeOrder_rev [OF rangeOrder_declaredOrder] by simp
qed

text \<open>
  C9, amended. For any two orders of the \<^verbatim>\<open>range\<close>, on the same document and filename:
  the run ends the same way (return, exit code or panic), and the whole output is the
  same unless both runs end with a presence error, each naming a field that is empty,
  and the two fields differ.
\<close>

theorem run_determined_up_to_range_order:
  assumes "rangeOrder (requiredFields component) order1"
    and "rangeOrder (requiredFields component) order2"
  shows "snd (main order1 filePath component) = snd (main order2 filePath component)
    \<and> (main order1 filePath component = main order2 filePath component
       \<or> (\<exists>field1 field2. field1 \<noteq> field2
            \<and> (field1, []) \<in> set (requiredFields component)
            \<and> (field2, []) \<in> set (requiredFields component)
            \<and> main order1 filePath component
                = ([''Error: '' @ field1 @ '' must not be empty''], Inl (OsExit 1))
            \<and> main order2 filePath component
                = ([''Error: '' @ field2 @ '' must not be empty''], Inl (OsExit 1))))"
proof (cases "checkFilename filePath component = ([], Inr ())")
  case False
  then have "main order1 filePath component = checkFilename filePath component"
    and "main order2 filePath component = checkFilename filePath component"
    by (simp_all add: main_def checkFilename_def split: if_splits)
  then show ?thesis by simp
next
  case pass: True
  show ?thesis
  proof (cases "requiredLoop (requiredFields component) order1 = ([], Inr ())")
    case True
    with assms have "requiredLoop (requiredFields component) order2 = ([], Inr ())"
      by (intro requiredLoop_pass_any_order [of _ order1 order2])
    with True have "main order1 filePath component = main order2 filePath component"
      by (simp add: main_def checkRequiredFields_def)
    then show ?thesis by simp
  next
    case False
    with assms have "requiredLoop (requiredFields component) order2 \<noteq> ([], Inr ())"
      using requiredLoop_pass_any_order [of _ order2 order1] by blast
    with requiredLoop_cases [of "requiredFields component" order2]
    obtain field2 where e2: "map_of (requiredFields component) field2 = Some []"
      and s2: "checkRequiredFields order2 component
         = ([''Error: '' @ field2 @ '' must not be empty''], Inl (OsExit 1))"
      unfolding checkRequiredFields_def by blast
    from False requiredLoop_cases [of "requiredFields component" order1]
    obtain field1 where e1: "map_of (requiredFields component) field1 = Some []"
      and s1: "checkRequiredFields order1 component
         = ([''Error: '' @ field1 @ '' must not be empty''], Inl (OsExit 1))"
      unfolding checkRequiredFields_def by blast
    note m1 = main_stops_at_required [OF pass s1]
    note m2 = main_stops_at_required [OF pass s2]
    from m1 m2 have verdict: "snd (main order1 filePath component) = snd (main order2 filePath component)"
      by simp
    show ?thesis
    proof (cases "field1 = field2")
      case True
      with m1 m2 show ?thesis by simp
    next
      case False
      from e1 e2 have "(field1, []) \<in> set (requiredFields component)"
        and "(field2, []) \<in> set (requiredFields component)"
        by (simp_all add: map_of_SomeD)
      with False m1 m2 have "\<exists>field1 field2. field1 \<noteq> field2
            \<and> (field1, []) \<in> set (requiredFields component)
            \<and> (field2, []) \<in> set (requiredFields component)
            \<and> main order1 filePath component
                = ([''Error: '' @ field1 @ '' must not be empty''], Inl (OsExit 1))
            \<and> main order2 filePath component
                = ([''Error: '' @ field2 @ '' must not be empty''], Inl (OsExit 1))"
        by (intro exI [of _ field1] exI [of _ field2] conjI)
      with verdict show ?thesis by simp
    qed
  qed
qed

theorem run_determined_up_to_range_order_witness:
  "rangeOrder (requiredFields (minimalDocument\<lparr>Type := '''', Name := ''''\<rparr>)) declaredOrder
   \<and> rangeOrder (requiredFields (minimalDocument\<lparr>Type := '''', Name := ''''\<rparr>)) (rev declaredOrder)
   \<and> snd (main declaredOrder ''org.example.app.metainfo.xml''
            (minimalDocument\<lparr>Type := '''', Name := ''''\<rparr>))
       = snd (main (rev declaredOrder) ''org.example.app.metainfo.xml''
            (minimalDocument\<lparr>Type := '''', Name := ''''\<rparr>))"
  using run_determined_up_to_range_order [OF rangeOrder_declaredOrder
      rangeOrder_rev [OF rangeOrder_declaredOrder],
      where component = "minimalDocument\<lparr>Type := '''', Name := ''''\<rparr>"
        and filePath = "''org.example.app.metainfo.xml''"]
    rangeOrder_declaredOrder rangeOrder_rev [OF rangeOrder_declaredOrder]
  by simp

text \<open>
  C10. The inner test of the screenshot count never fires: the screenshot step is the
  warning when the list is empty and the loop over the screenshots otherwise, and no run
  prints the line of the inner error.
\<close>

theorem inner_screenshot_error_unreachable:
  "checkScreenshots component =
     (if Screenshots component = [] then ([''Warning: No screenshots tag found''], Inr ())
      else runSteps (map checkScreenshot (Screenshots component)))
   \<and> ''Error: No screenshot tag found inside screenshots tag''
       \<notin> set (fst (main order filePath component))"
  using dead_line_notin_main [of order filePath component]
  by (simp add: checkScreenshots_def)

theorem inner_screenshot_error_unreachable_witness:
  "checkScreenshots minimalDocument = ([''Warning: No screenshots tag found''], Inr ())
   \<and> ''Error: No screenshot tag found inside screenshots tag''
       \<notin> set (fst (main declaredOrder ''org.example.app.metainfo.xml'' minimalDocument))"
  using inner_screenshot_error_unreachable [where component = minimalDocument
      and order = declaredOrder and filePath = "''org.example.app.metainfo.xml''"]
  by (simp add: minimalDocument_def)

end
